theory Spec2Isabelle
  imports Complex_Main
begin

section \<open>Values, exceptions and the observable world\<close>

text \<open>
  The bot is one Python module, \<^verbatim>\<open>homework.py\<close>. A Python \<^verbatim>\<open>str\<close> is modelled by
  the list of its UTF-8 bytes: the program only compares, concatenates and looks strings
  up, and all three commute with the encoding.
\<close>

type_synonym pystr = string

text \<open>
  What \<^verbatim>\<open>response.json()\<close> can hand back: \<^verbatim>\<open>None\<close>, \<^verbatim>\<open>bool\<close>, \<^verbatim>\<open>int\<close>,
  \<^verbatim>\<open>float\<close>, \<^verbatim>\<open>str\<close>, \<^verbatim>\<open>list\<close> and \<^verbatim>\<open>dict\<close> with string keys. A dict is an
  association list read with \<^const>\<open>map_of\<close>. Floats are carried as reals (NaN and the
  infinities are left out; the program never computes with a float).
\<close>

datatype pyval =
    PNone
  | PBool bool
  | PInt int
  | PFloat real
  | PStr pystr
  | PList "pyval list"
  | PDict "(pystr \<times> pyval) list"

text \<open>
  The exceptions that can travel through the program, each with the text that
  \<^verbatim>\<open>str(error)\<close> gives. The first four are the classes the module declares (lines 39-67);
  \<open>RequestException\<close>, \<open>JSONDecodeError\<close> and \<open>TelegramError\<close> stand for the library
  classes named in the \<^verbatim>\<open>except\<close> clauses (with their subclasses); \<open>OtherException\<close> is
  any further subclass of \<^verbatim>\<open>Exception\<close>.
\<close>

datatype exn =
    NotDocumentStatusError pystr
  | UrlApiError pystr
  | RequestExceptionError pystr
  | EmptyDictionaryOrListError pystr
  | TypeError pystr
  | KeyError pystr
  | IndexError pystr
  | AttributeError pystr
  | RequestException pystr
  | JSONDecodeError pystr
  | TelegramError pystr
  | OtherException pystr

fun exn_text :: "exn \<Rightarrow> pystr" where
  "exn_text (NotDocumentStatusError t) = t"
| "exn_text (UrlApiError t) = t"
| "exn_text (RequestExceptionError t) = t"
| "exn_text (EmptyDictionaryOrListError t) = t"
| "exn_text (TypeError t) = t"
| "exn_text (KeyError t) = t"
| "exn_text (IndexError t) = t"
| "exn_text (AttributeError t) = t"
| "exn_text (RequestException t) = t"
| "exn_text (JSONDecodeError t) = t"
| "exn_text (TelegramError t) = t"
| "exn_text (OtherException t) = t"

datatype level = DEBUG | INFO | ERROR | CRITICAL

text \<open>The module-level constants read from the environment (lines 12-14).\<close>

record config =
  PRACTICUM_TOKEN :: "pystr option"
  TELEGRAM_TOKEN :: "pystr option"
  TELEGRAM_CHAT_ID :: "pystr option"

text \<open>One call of \<^verbatim>\<open>requests.get\<close> (line 111): url, Authorization header, from_date.\<close>

record http_request =
  url :: pystr
  authorization :: pystr
  from_date :: int

text \<open>
  What the process does to the outside, in order: \<open>logged\<close> the logging calls (level
  and message), \<open>sent\<close> the calls of \<^verbatim>\<open>bot.send_message\<close> (chat id and text, whether
  or not the delivery then succeeds), \<open>requested\<close> the calls of \<^verbatim>\<open>requests.get\<close>,
  \<open>slept\<close> the arguments of \<^verbatim>\<open>time.sleep\<close>. Both \<^verbatim>\<open>logger\<close> and the root logger
  used on line 212 end in the same log file; their calls are recorded together.
\<close>

record world =
  logged :: "(level \<times> pystr) list"
  sent :: "(pystr option \<times> pystr) list"
  requested :: "http_request list"
  slept :: "int list"

text \<open>
  The state of the polling loop adds the local variables of \<^verbatim>\<open>main\<close>: \<open>hw_status\<close>
  and \<open>errors\<close>, which the loop assigns, and \<open>timestamp\<close>, which it reads.
\<close>

record state = world +
  hw_status :: pyval
  errors :: bool
  timestamp :: int

definition log_call :: "level \<Rightarrow> pystr \<Rightarrow> 'a world_scheme \<Rightarrow> 'a world_scheme" where
  "log_call lv msg w = w\<lparr>logged := logged w @ [(lv, msg)]\<rparr>"

definition sleep :: "int \<Rightarrow> 'a world_scheme \<Rightarrow> 'a world_scheme" where
  "sleep secs w = w\<lparr>slept := slept w @ [secs]\<rparr>"

section \<open>Constants of the module\<close>

definition RETRY_PERIOD :: int where
  "RETRY_PERIOD = 600"

definition ENDPOINT :: pystr where
  "ENDPOINT = ''https://practicum.yandex.ru/api/user_api/homework_statuses/''"

subsection \<open>The message texts, byte for byte\<close>

definition verdict_approved :: pystr where
  \<comment> \<open>line 22\<close>
  "verdict_approved =
     [CHR 0xD0, CHR 0xA0, CHR 0xD0, CHR 0xB0, CHR 0xD0, CHR 0xB1, CHR 0xD0, CHR 0xBE, CHR 0xD1,
     CHR 0x82, CHR 0xD0, CHR 0xB0] @ '' '' @ [CHR 0xD0, CHR 0xBF, CHR 0xD1, CHR 0x80, CHR 0xD0,
     CHR 0xBE, CHR 0xD0, CHR 0xB2, CHR 0xD0, CHR 0xB5, CHR 0xD1, CHR 0x80, CHR 0xD0, CHR 0xB5,
     CHR 0xD0, CHR 0xBD, CHR 0xD0, CHR 0xB0] @ '': '' @ [CHR 0xD1, CHR 0x80, CHR 0xD0, CHR 0xB5,
     CHR 0xD0, CHR 0xB2, CHR 0xD1, CHR 0x8C, CHR 0xD1, CHR 0x8E, CHR 0xD0, CHR 0xB5, CHR 0xD1,
     CHR 0x80, CHR 0xD1, CHR 0x83] @ '' '' @ [CHR 0xD0, CHR 0xB2, CHR 0xD1, CHR 0x81, CHR 0xD1,
     CHR 0x91] @ '' '' @ [CHR 0xD0, CHR 0xBF, CHR 0xD0, CHR 0xBE, CHR 0xD0, CHR 0xBD, CHR 0xD1,
     CHR 0x80, CHR 0xD0, CHR 0xB0, CHR 0xD0, CHR 0xB2, CHR 0xD0, CHR 0xB8, CHR 0xD0, CHR 0xBB,
     CHR 0xD0, CHR 0xBE, CHR 0xD1, CHR 0x81, CHR 0xD1, CHR 0x8C] @ ''. '' @ [CHR 0xD0, CHR 0xA3,
     CHR 0xD1, CHR 0x80, CHR 0xD0, CHR 0xB0] @ ''!''"

definition verdict_reviewing :: pystr where
  \<comment> \<open>line 23\<close>
  "verdict_reviewing =
     [CHR 0xD0, CHR 0xA0, CHR 0xD0, CHR 0xB0, CHR 0xD0, CHR 0xB1, CHR 0xD0, CHR 0xBE, CHR 0xD1,
     CHR 0x82, CHR 0xD0, CHR 0xB0] @ '' '' @ [CHR 0xD0, CHR 0xB2, CHR 0xD0, CHR 0xB7, CHR 0xD1,
     CHR 0x8F, CHR 0xD1, CHR 0x82, CHR 0xD0, CHR 0xB0] @ '' '' @ [CHR 0xD0, CHR 0xBD, CHR 0xD0,
     CHR 0xB0] @ '' '' @ [CHR 0xD0, CHR 0xBF, CHR 0xD1, CHR 0x80, CHR 0xD0, CHR 0xBE, CHR 0xD0,
     CHR 0xB2, CHR 0xD0, CHR 0xB5, CHR 0xD1, CHR 0x80, CHR 0xD0, CHR 0xBA, CHR 0xD1, CHR 0x83] @
     '' '' @ [CHR 0xD1, CHR 0x80, CHR 0xD0, CHR 0xB5, CHR 0xD0, CHR 0xB2, CHR 0xD1, CHR 0x8C,
     CHR 0xD1, CHR 0x8E, CHR 0xD0, CHR 0xB5, CHR 0xD1, CHR 0x80, CHR 0xD0, CHR 0xBE, CHR 0xD0,
     CHR 0xBC] @ ''.''"

definition verdict_rejected :: pystr where
  \<comment> \<open>line 24\<close>
  "verdict_rejected =
     [CHR 0xD0, CHR 0xA0, CHR 0xD0, CHR 0xB0, CHR 0xD0, CHR 0xB1, CHR 0xD0, CHR 0xBE, CHR 0xD1,
     CHR 0x82, CHR 0xD0, CHR 0xB0] @ '' '' @ [CHR 0xD0, CHR 0xBF, CHR 0xD1, CHR 0x80, CHR 0xD0,
     CHR 0xBE, CHR 0xD0, CHR 0xB2, CHR 0xD0, CHR 0xB5, CHR 0xD1, CHR 0x80, CHR 0xD0, CHR 0xB5,
     CHR 0xD0, CHR 0xBD, CHR 0xD0, CHR 0xB0] @ '': '' @ [CHR 0xD1, CHR 0x83] @ '' '' @ [CHR 0xD1,
     CHR 0x80, CHR 0xD0, CHR 0xB5, CHR 0xD0, CHR 0xB2, CHR 0xD1, CHR 0x8C, CHR 0xD1, CHR 0x8E,
     CHR 0xD0, CHR 0xB5, CHR 0xD1, CHR 0x80, CHR 0xD0, CHR 0xB0] @ '' '' @ [CHR 0xD0, CHR 0xB5,
     CHR 0xD1, CHR 0x81, CHR 0xD1, CHR 0x82, CHR 0xD1, CHR 0x8C] @ '' '' @ [CHR 0xD0, CHR 0xB7,
     CHR 0xD0, CHR 0xB0, CHR 0xD0, CHR 0xBC, CHR 0xD0, CHR 0xB5, CHR 0xD1, CHR 0x87, CHR 0xD0,
     CHR 0xB0, CHR 0xD0, CHR 0xBD, CHR 0xD0, CHR 0xB8, CHR 0xD1, CHR 0x8F] @ ''.''"

definition tokens_msg :: pystr where
  \<comment> \<open>line 77\<close>
  "tokens_msg =
     [CHR 0xD0, CHR 0x9F, CHR 0xD1, CHR 0x80, CHR 0xD0, CHR 0xBE, CHR 0xD0, CHR 0xB3, CHR 0xD1,
     CHR 0x80, CHR 0xD0, CHR 0xB0, CHR 0xD0, CHR 0xBC, CHR 0xD0, CHR 0xBC, CHR 0xD0, CHR 0xB0] @
     '' '' @ [CHR 0xD0, CHR 0xBF, CHR 0xD1, CHR 0x80, CHR 0xD0, CHR 0xB8, CHR 0xD0, CHR 0xBD,
     CHR 0xD1, CHR 0x83, CHR 0xD0, CHR 0xB4, CHR 0xD0, CHR 0xB8, CHR 0xD1, CHR 0x82, CHR 0xD0,
     CHR 0xB5, CHR 0xD0, CHR 0xBB, CHR 0xD1, CHR 0x8C, CHR 0xD0, CHR 0xBD, CHR 0xD0, CHR 0xBE] @
     '' '' @ [CHR 0xD0, CHR 0xBE, CHR 0xD1, CHR 0x81, CHR 0xD1, CHR 0x82, CHR 0xD0, CHR 0xB0,
     CHR 0xD0, CHR 0xBD, CHR 0xD0, CHR 0xBE, CHR 0xD0, CHR 0xB2, CHR 0xD0, CHR 0xBB, CHR 0xD0,
     CHR 0xB5, CHR 0xD0, CHR 0xBD, CHR 0xD0, CHR 0xB0] @ ''. '' @ [CHR 0xD0, CHR 0x9E, CHR 0xD1,
     CHR 0x82, CHR 0xD1, CHR 0x81, CHR 0xD1, CHR 0x83, CHR 0xD1, CHR 0x82, CHR 0xD1, CHR 0x81,
     CHR 0xD1, CHR 0x82, CHR 0xD0, CHR 0xB2, CHR 0xD1, CHR 0x83, CHR 0xD0, CHR 0xB5, CHR 0xD1,
     CHR 0x82] @ '' '' @ [CHR 0xD0, CHR 0xBE, CHR 0xD0, CHR 0xB1, CHR 0xD1, CHR 0x8F, CHR 0xD0,
     CHR 0xB7, CHR 0xD0, CHR 0xB0, CHR 0xD1, CHR 0x82, CHR 0xD0, CHR 0xB5, CHR 0xD0, CHR 0xBB,
     CHR 0xD1, CHR 0x8C, CHR 0xD0, CHR 0xBD, CHR 0xD0, CHR 0xB0, CHR 0xD1, CHR 0x8F] @ '' '' @
     [CHR 0xD0, CHR 0xBF, CHR 0xD0, CHR 0xB5, CHR 0xD1, CHR 0x80, CHR 0xD0, CHR 0xB5, CHR 0xD0,
     CHR 0xBC, CHR 0xD0, CHR 0xB5, CHR 0xD0, CHR 0xBD, CHR 0xD0, CHR 0xBD, CHR 0xD0, CHR 0xB0,
     CHR 0xD1, CHR 0x8F] @ '' '' @ [CHR 0xD0, CHR 0xBE, CHR 0xD0, CHR 0xBA, CHR 0xD1, CHR 0x80,
     CHR 0xD1, CHR 0x83, CHR 0xD0, CHR 0xB6, CHR 0xD0, CHR 0xB5, CHR 0xD0, CHR 0xBD, CHR 0xD0,
     CHR 0xB8, CHR 0xD1, CHR 0x8F] @ '':''"

definition sent_ok_text :: pystr where
  \<comment> \<open>line 98\<close>
  "sent_ok_text =
     [CHR 0xD0, CHR 0xA1, CHR 0xD0, CHR 0xBE, CHR 0xD0, CHR 0xBE, CHR 0xD0, CHR 0xB1, CHR 0xD1,
     CHR 0x89, CHR 0xD0, CHR 0xB5, CHR 0xD0, CHR 0xBD, CHR 0xD0, CHR 0xB8, CHR 0xD0, CHR 0xB5] @
     '' '' @ [CHR 0xD1, CHR 0x83, CHR 0xD1, CHR 0x81, CHR 0xD0, CHR 0xBF, CHR 0xD0, CHR 0xB5,
     CHR 0xD1, CHR 0x88, CHR 0xD0, CHR 0xBD, CHR 0xD0, CHR 0xBE] @ '' '' @ [CHR 0xD0, CHR 0xBE,
     CHR 0xD1, CHR 0x82, CHR 0xD0, CHR 0xBF, CHR 0xD1, CHR 0x80, CHR 0xD0, CHR 0xB0, CHR 0xD0,
     CHR 0xB2, CHR 0xD0, CHR 0xBB, CHR 0xD0, CHR 0xB5, CHR 0xD0, CHR 0xBD, CHR 0xD0, CHR 0xBE] @
     ''!''"

definition send_failed_prefix :: pystr where
  \<comment> \<open>line 100\<close>
  "send_failed_prefix =
     [CHR 0xD0, CHR 0x9E, CHR 0xD1, CHR 0x82, CHR 0xD0, CHR 0xBF, CHR 0xD1, CHR 0x80, CHR 0xD0,
     CHR 0xB0, CHR 0xD0, CHR 0xB2, CHR 0xD0, CHR 0xBA, CHR 0xD0, CHR 0xB0] @ '' '' @ [CHR 0xD1,
     CHR 0x81, CHR 0xD0, CHR 0xBE, CHR 0xD0, CHR 0xBE, CHR 0xD0, CHR 0xB1, CHR 0xD1, CHR 0x89,
     CHR 0xD0, CHR 0xB5, CHR 0xD0, CHR 0xBD, CHR 0xD0, CHR 0xB8, CHR 0xD1, CHR 0x8F] @ '' '' @
     [CHR 0xD0, CHR 0xBF, CHR 0xD1, CHR 0x80, CHR 0xD0, CHR 0xB5, CHR 0xD1, CHR 0x80, CHR 0xD0,
     CHR 0xB2, CHR 0xD0, CHR 0xB0, CHR 0xD0, CHR 0xBD, CHR 0xD0, CHR 0xB0] @ '' '' @ [CHR 0xD0,
     CHR 0xBE, CHR 0xD1, CHR 0x88, CHR 0xD0, CHR 0xB8, CHR 0xD0, CHR 0xB1, CHR 0xD0, CHR 0xBA,
     CHR 0xD0, CHR 0xBE, CHR 0xD0, CHR 0xB9] @ '' ''"

definition api_msg_prefix :: pystr where
  \<comment> \<open>line 114\<close>
  "api_msg_prefix =
     [CHR 0xD0, CHR 0xAD, CHR 0xD0, CHR 0xBD, CHR 0xD0, CHR 0xB4, CHR 0xD0, CHR 0xBF, CHR 0xD0,
     CHR 0xBE, CHR 0xD0, CHR 0xB8, CHR 0xD0, CHR 0xBD, CHR 0xD1, CHR 0x82] @ '' ''"

definition api_msg_middle :: pystr where
  \<comment> \<open>line 114\<close>
  "api_msg_middle =
     '' '' @ [CHR 0xD0, CHR 0xBD, CHR 0xD0, CHR 0xB5, CHR 0xD0, CHR 0xB4, CHR 0xD0, CHR 0xBE,
     CHR 0xD1, CHR 0x81, CHR 0xD1, CHR 0x82, CHR 0xD1, CHR 0x83, CHR 0xD0, CHR 0xBF, CHR 0xD0,
     CHR 0xB5, CHR 0xD0, CHR 0xBD] @ ''. '' @ [CHR 0xD0, CHR 0x9A, CHR 0xD0, CHR 0xBE, CHR 0xD0,
     CHR 0xB4] @ '' '' @ [CHR 0xD0, CHR 0xBE, CHR 0xD1, CHR 0x82, CHR 0xD0, CHR 0xB2, CHR 0xD0,
     CHR 0xB5, CHR 0xD1, CHR 0x82, CHR 0xD0, CHR 0xB0] @ '' API: ''"

definition request_error_prefix :: pystr where
  \<comment> \<open>line 121\<close>
  "request_error_prefix =
     [CHR 0xD0, CHR 0x9A, CHR 0xD0, CHR 0xBE, CHR 0xD0, CHR 0xB4] @ '' '' @ [CHR 0xD0, CHR 0xBE,
     CHR 0xD1, CHR 0x82, CHR 0xD0, CHR 0xB2, CHR 0xD0, CHR 0xB5, CHR 0xD1, CHR 0x82, CHR 0xD0,
     CHR 0xB0] @ '' API (RequestException): ''"

definition value_error_prefix :: pystr where
  \<comment> \<open>line 126\<close>
  "value_error_prefix =
     [CHR 0xD0, CHR 0x9A, CHR 0xD0, CHR 0xBE, CHR 0xD0, CHR 0xB4] @ '' '' @ [CHR 0xD0, CHR 0xBE,
     CHR 0xD1, CHR 0x82, CHR 0xD0, CHR 0xB2, CHR 0xD0, CHR 0xB5, CHR 0xD1, CHR 0x82, CHR 0xD0,
     CHR 0xB0] @ '' API (ValueError): ''"

definition not_dict_text :: pystr where
  \<comment> \<open>line 138\<close>
  "not_dict_text =
     [CHR 0xD0, CHR 0xA1, CHR 0xD1, CHR 0x82, CHR 0xD1, CHR 0x80, CHR 0xD1, CHR 0x83, CHR 0xD0,
     CHR 0xBA, CHR 0xD1, CHR 0x82, CHR 0xD1, CHR 0x83, CHR 0xD1, CHR 0x80, CHR 0xD0, CHR 0xB0] @
     '' '' @ [CHR 0xD0, CHR 0xB4, CHR 0xD0, CHR 0xB0, CHR 0xD0, CHR 0xBD, CHR 0xD0, CHR 0xBD,
     CHR 0xD1, CHR 0x8B, CHR 0xD1, CHR 0x85] @ '' '' @ [CHR 0xD0, CHR 0xBD, CHR 0xD0, CHR 0xB5] @
     '' '' @ [CHR 0xD1, CHR 0x81, CHR 0xD0, CHR 0xBE, CHR 0xD0, CHR 0xBE, CHR 0xD1, CHR 0x82,
     CHR 0xD0, CHR 0xB2, CHR 0xD0, CHR 0xB5, CHR 0xD1, CHR 0x82, CHR 0xD1, CHR 0x81, CHR 0xD0,
     CHR 0xB2, CHR 0xD1, CHR 0x83, CHR 0xD0, CHR 0xB5, CHR 0xD1, CHR 0x82] @ '' '' @ [CHR 0xD1,
     CHR 0x81, CHR 0xD0, CHR 0xBB, CHR 0xD0, CHR 0xBE, CHR 0xD0, CHR 0xB2, CHR 0xD0, CHR 0xB0,
     CHR 0xD1, CHR 0x80, CHR 0xD1, CHR 0x8E] @ ''!''"

definition no_homeworks_text :: pystr where
  \<comment> \<open>line 143\<close>
  "no_homeworks_text =
     [CHR 0xD0, CHR 0x9E, CHR 0xD1, CHR 0x88, CHR 0xD0, CHR 0xB8, CHR 0xD0, CHR 0xB1, CHR 0xD0,
     CHR 0xBA, CHR 0xD0, CHR 0xB0] @ '' '' @ [CHR 0xD0, CHR 0xBA, CHR 0xD0, CHR 0xBB, CHR 0xD1,
     CHR 0x8E, CHR 0xD1, CHR 0x87, CHR 0xD0, CHR 0xB0] @ '' homeworks '' @ [CHR 0xD0, CHR 0xB8,
     CHR 0xD0, CHR 0xBB, CHR 0xD0, CHR 0xB8] @ '' response'' @ [CHR 0xD0, CHR 0xB8, CHR 0xD0,
     CHR 0xBC, CHR 0xD0, CHR 0xB5, CHR 0xD0, CHR 0xB5, CHR 0xD1, CHR 0x82] @ '' '' @ [CHR 0xD0,
     CHR 0xBD, CHR 0xD0, CHR 0xB5, CHR 0xD0, CHR 0xBF, CHR 0xD1, CHR 0x80, CHR 0xD0, CHR 0xB0,
     CHR 0xD0, CHR 0xB2, CHR 0xD0, CHR 0xB8, CHR 0xD0, CHR 0xBB, CHR 0xD1, CHR 0x8C, CHR 0xD0,
     CHR 0xBD, CHR 0xD0, CHR 0xBE, CHR 0xD0, CHR 0xB5] @ '' '' @ [CHR 0xD0, CHR 0xB7, CHR 0xD0,
     CHR 0xBD, CHR 0xD0, CHR 0xB0, CHR 0xD1, CHR 0x87, CHR 0xD0, CHR 0xB5, CHR 0xD0, CHR 0xBD,
     CHR 0xD0, CHR 0xB8, CHR 0xD0, CHR 0xB5] @ ''.''"

definition not_list_text :: pystr where
  \<comment> \<open>line 149\<close>
  "not_list_text =
     [CHR 0xD0, CHR 0xA1, CHR 0xD1, CHR 0x82, CHR 0xD1, CHR 0x80, CHR 0xD1, CHR 0x83, CHR 0xD0,
     CHR 0xBA, CHR 0xD1, CHR 0x82, CHR 0xD1, CHR 0x83, CHR 0xD1, CHR 0x80, CHR 0xD0, CHR 0xB0] @
     '' '' @ [CHR 0xD0, CHR 0xB4, CHR 0xD0, CHR 0xB0, CHR 0xD0, CHR 0xBD, CHR 0xD0, CHR 0xBD,
     CHR 0xD1, CHR 0x8B, CHR 0xD1, CHR 0x85] @ '' '' @ [CHR 0xD0, CHR 0xBD, CHR 0xD0, CHR 0xB5] @
     '' '' @ [CHR 0xD1, CHR 0x81, CHR 0xD0, CHR 0xBE, CHR 0xD0, CHR 0xBE, CHR 0xD1, CHR 0x82,
     CHR 0xD0, CHR 0xB2, CHR 0xD0, CHR 0xB5, CHR 0xD1, CHR 0x82, CHR 0xD1, CHR 0x81, CHR 0xD0,
     CHR 0xB2, CHR 0xD1, CHR 0x83, CHR 0xD0, CHR 0xB5, CHR 0xD1, CHR 0x82] @ '' '' @ [CHR 0xD1,
     CHR 0x81, CHR 0xD0, CHR 0xBF, CHR 0xD0, CHR 0xB8, CHR 0xD1, CHR 0x81, CHR 0xD0, CHR 0xBA,
     CHR 0xD1, CHR 0x83] @ ''!''"

definition unknown_status_text :: pystr where
  \<comment> \<open>line 167\<close>
  "unknown_status_text =
     [CHR 0xD0, CHR 0x9D, CHR 0xD0, CHR 0xB5, CHR 0xD0, CHR 0xB4, CHR 0xD0, CHR 0xBE, CHR 0xD0,
     CHR 0xBA, CHR 0xD1, CHR 0x83, CHR 0xD0, CHR 0xBC, CHR 0xD0, CHR 0xB5, CHR 0xD0, CHR 0xBD,
     CHR 0xD1, CHR 0x82, CHR 0xD0, CHR 0xB8, CHR 0xD1, CHR 0x80, CHR 0xD0, CHR 0xBE, CHR 0xD0,
     CHR 0xB2, CHR 0xD0, CHR 0xB0, CHR 0xD0, CHR 0xBD, CHR 0xD0, CHR 0xBD, CHR 0xD1, CHR 0x8B,
     CHR 0xD0, CHR 0xB9] @ '' '' @ [CHR 0xD1, CHR 0x84, CHR 0xD0, CHR 0xBE, CHR 0xD1, CHR 0x80,
     CHR 0xD0, CHR 0xBC, CHR 0xD0, CHR 0xB0, CHR 0xD1, CHR 0x82] @ '' '' @ [CHR 0xD1, CHR 0x81,
     CHR 0xD1, CHR 0x82, CHR 0xD0, CHR 0xB0, CHR 0xD1, CHR 0x82, CHR 0xD1, CHR 0x83, CHR 0xD1,
     CHR 0x81, CHR 0xD0, CHR 0xB0] @ ''!''"

definition empty_name_text :: pystr where
  \<comment> \<open>line 173\<close>
  "empty_name_text =
     [CHR 0xD0, CHR 0x9E, CHR 0xD1, CHR 0x88, CHR 0xD0, CHR 0xB8, CHR 0xD0, CHR 0xB1, CHR 0xD0,
     CHR 0xBA, CHR 0xD0, CHR 0xB0] @ '' '' @ [CHR 0xD0, CHR 0xBF, CHR 0xD1, CHR 0x83, CHR 0xD1,
     CHR 0x81, CHR 0xD1, CHR 0x82, CHR 0xD0, CHR 0xBE, CHR 0xD0, CHR 0xB5] @ '' '' @ [CHR 0xD0,
     CHR 0xB7, CHR 0xD0, CHR 0xBD, CHR 0xD0, CHR 0xB0, CHR 0xD1, CHR 0x87, CHR 0xD0, CHR 0xB5,
     CHR 0xD0, CHR 0xBD, CHR 0xD0, CHR 0xB8, CHR 0xD0, CHR 0xB5] @ '' homework_name: ''"

definition status_changed_prefix :: pystr where
  \<comment> \<open>line 175\<close>
  "status_changed_prefix =
     [CHR 0xD0, CHR 0x98, CHR 0xD0, CHR 0xB7, CHR 0xD0, CHR 0xBC, CHR 0xD0, CHR 0xB5, CHR 0xD0,
     CHR 0xBD, CHR 0xD0, CHR 0xB8, CHR 0xD0, CHR 0xBB, CHR 0xD1, CHR 0x81, CHR 0xD1, CHR 0x8F] @
     '' '' @ [CHR 0xD1, CHR 0x81, CHR 0xD1, CHR 0x82, CHR 0xD0, CHR 0xB0, CHR 0xD1, CHR 0x82,
     CHR 0xD1, CHR 0x83, CHR 0xD1, CHR 0x81] @ '' '' @ [CHR 0xD0, CHR 0xBF, CHR 0xD1, CHR 0x80,
     CHR 0xD0, CHR 0xBE, CHR 0xD0, CHR 0xB2, CHR 0xD0, CHR 0xB5, CHR 0xD1, CHR 0x80, CHR 0xD0,
     CHR 0xBA, CHR 0xD0, CHR 0xB8] @ '' '' @ [CHR 0xD1, CHR 0x80, CHR 0xD0, CHR 0xB0, CHR 0xD0,
     CHR 0xB1, CHR 0xD0, CHR 0xBE, CHR 0xD1, CHR 0x82, CHR 0xD1, CHR 0x8B] @ '' '' @ [CHR 0x22]"

definition tokens_failure_text :: pystr where
  \<comment> \<open>line 183\<close>
  "tokens_failure_text =
     [CHR 0xD0, CHR 0x9A, CHR 0xD0, CHR 0xB0, CHR 0xD0, CHR 0xB6, CHR 0xD0, CHR 0xB5, CHR 0xD1,
     CHR 0x82, CHR 0xD1, CHR 0x81, CHR 0xD1, CHR 0x8F] @ '' '' @ [CHR 0xD1, CHR 0x87, CHR 0xD1,
     CHR 0x82, CHR 0xD0, CHR 0xBE] @ ''-'' @ [CHR 0xD1, CHR 0x82, CHR 0xD0, CHR 0xBE] @ '' '' @
     [CHR 0xD0, CHR 0xBF, CHR 0xD0, CHR 0xBE, CHR 0xD1, CHR 0x88, CHR 0xD0, CHR 0xBB, CHR 0xD0,
     CHR 0xBE] @ '' '' @ [CHR 0xD0, CHR 0xBD, CHR 0xD0, CHR 0xB5] @ '' '' @ [CHR 0xD1, CHR 0x82,
     CHR 0xD0, CHR 0xB0, CHR 0xD0, CHR 0xBA] @ '' :(((''"

definition tracking_started_text :: pystr where
  \<comment> \<open>line 189\<close>
  "tracking_started_text =
     [CHR 0xD0, CHR 0xAF] @ '' '' @ [CHR 0xD0, CHR 0xBD, CHR 0xD0, CHR 0xB0, CHR 0xD1, CHR 0x87,
     CHR 0xD0, CHR 0xB0, CHR 0xD0, CHR 0xBB] @ '' '' @ [CHR 0xD0, CHR 0xBE, CHR 0xD1, CHR 0x82,
     CHR 0xD1, CHR 0x81, CHR 0xD0, CHR 0xBB, CHR 0xD0, CHR 0xB5, CHR 0xD0, CHR 0xB6, CHR 0xD0,
     CHR 0xB8, CHR 0xD0, CHR 0xB2, CHR 0xD0, CHR 0xB0, CHR 0xD0, CHR 0xBD, CHR 0xD0, CHR 0xB8,
     CHR 0xD0, CHR 0xB5] @ ''!''"

definition status_update_prefix :: pystr where
  \<comment> \<open>line 201\<close>
  "status_update_prefix =
     [CHR 0xD0, CHR 0x9E, CHR 0xD0, CHR 0xB1, CHR 0xD0, CHR 0xBD, CHR 0xD0, CHR 0xBE, CHR 0xD0,
     CHR 0xB2, CHR 0xD0, CHR 0xBB, CHR 0xD0, CHR 0xB5, CHR 0xD0, CHR 0xBD, CHR 0xD0, CHR 0xB8,
     CHR 0xD0, CHR 0xB5] @ '' '' @ [CHR 0xD1, CHR 0x81, CHR 0xD1, CHR 0x82, CHR 0xD0, CHR 0xB0,
     CHR 0xD1, CHR 0x82, CHR 0xD1, CHR 0x83, CHR 0xD1, CHR 0x81, CHR 0xD0, CHR 0xB0] @ '' '' @
     [CHR 0xD0, CHR 0xB4, CHR 0xD0, CHR 0xBE, CHR 0xD0, CHR 0xBC, CHR 0xD0, CHR 0xB0, CHR 0xD1,
     CHR 0x88, CHR 0xD0, CHR 0xBA, CHR 0xD0, CHR 0xB8] @ '' '' @ [CHR 0xD0, CHR 0xBD, CHR 0xD0,
     CHR 0xB0] @ '' ''"

definition no_changes_text :: pystr where
  \<comment> \<open>line 203\<close>
  "no_changes_text =
     [CHR 0xD0, CHR 0x98, CHR 0xD0, CHR 0xB7, CHR 0xD0, CHR 0xBC, CHR 0xD0, CHR 0xB5, CHR 0xD0,
     CHR 0xBD, CHR 0xD0, CHR 0xB5, CHR 0xD0, CHR 0xBD, CHR 0xD0, CHR 0xB8, CHR 0xD0, CHR 0xB9] @
     '' '' @ [CHR 0xD0, CHR 0xBD, CHR 0xD0, CHR 0xB5, CHR 0xD1, CHR 0x82] @ ''!''"

definition failure_prefix :: pystr where
  \<comment> \<open>line 207\<close>
  "failure_prefix =
     [CHR 0xD0, CHR 0xA1, CHR 0xD0, CHR 0xB1, CHR 0xD0, CHR 0xBE, CHR 0xD0, CHR 0xB9] @ '' '' @
     [CHR 0xD0, CHR 0xB2] @ '' '' @ [CHR 0xD1, CHR 0x80, CHR 0xD0, CHR 0xB0, CHR 0xD0, CHR 0xB1,
     CHR 0xD0, CHR 0xBE, CHR 0xD1, CHR 0x82, CHR 0xD0, CHR 0xB5] @ '' '' @ [CHR 0xD0, CHR 0xBF,
     CHR 0xD1, CHR 0x80, CHR 0xD0, CHR 0xBE, CHR 0xD0, CHR 0xB3, CHR 0xD1, CHR 0x80, CHR 0xD0,
     CHR 0xB0, CHR 0xD0, CHR 0xBC, CHR 0xD0, CHR 0xBC, CHR 0xD1, CHR 0x8B] @ '': ''"

definition HOMEWORK_VERDICTS :: "(pystr \<times> pystr) list" where
  \<comment> \<open>lines 21-25\<close>
  "HOMEWORK_VERDICTS =
     [(''approved'', verdict_approved),
      (''reviewing'', verdict_reviewing),
      (''rejected'', verdict_rejected)]"

definition HEADERS :: "config \<Rightarrow> pystr" where
  \<comment> \<open>line 18: the value of the Authorization header; an f-string prints a missing token as None\<close>
  "HEADERS cfg =
     ''OAuth '' @ (case PRACTICUM_TOKEN cfg of None \<Rightarrow> ''None'' | Some t \<Rightarrow> t)"

section \<open>The Python operations the module relies on\<close>

definition type_name :: "pyval \<Rightarrow> pystr" where
  "type_name v =
     (case v of
        PNone \<Rightarrow> ''NoneType''
      | PBool _ \<Rightarrow> ''bool''
      | PInt _ \<Rightarrow> ''int''
      | PFloat _ \<Rightarrow> ''float''
      | PStr _ \<Rightarrow> ''str''
      | PList _ \<Rightarrow> ''list''
      | PDict _ \<Rightarrow> ''dict'')"

definition truthy :: "pyval \<Rightarrow> bool" where
  "truthy v =
     (case v of
        PNone \<Rightarrow> False
      | PBool b \<Rightarrow> b
      | PInt i \<Rightarrow> i \<noteq> 0
      | PFloat x \<Rightarrow> x \<noteq> 0
      | PStr t \<Rightarrow> t \<noteq> []
      | PList xs \<Rightarrow> xs \<noteq> []
      | PDict d \<Rightarrow> d \<noteq> [])"

definition quoted :: "pystr \<Rightarrow> pystr" where
  "quoted t = [CHR 0x27] @ t @ [CHR 0x27]"

text \<open>\<^verbatim>\<open>d.get(key)\<close>: the value, or \<^verbatim>\<open>None\<close> for a missing key.\<close>

definition dict_get :: "(pystr \<times> pyval) list \<Rightarrow> pystr \<Rightarrow> pyval" where
  "dict_get d key = (case map_of d key of None \<Rightarrow> PNone | Some v \<Rightarrow> v)"

text \<open>
  \<^verbatim>\<open>v[key]\<close> with a string key: a dict raises \<^verbatim>\<open>KeyError\<close> on a missing key (whose
  \<^verbatim>\<open>str\<close> is the quoted key), every other JSON value raises \<^verbatim>\<open>TypeError\<close> (texts of
  CPython 3.11).
\<close>

definition subscript :: "pyval \<Rightarrow> pystr \<Rightarrow> exn + pyval" where
  "subscript v key =
     (case v of
        PDict d \<Rightarrow>
          (case map_of d key of None \<Rightarrow> Inl (KeyError (quoted key)) | Some x \<Rightarrow> Inr x)
      | PList _ \<Rightarrow> Inl (TypeError ''list indices must be integers or slices, not str'')
      | PStr _ \<Rightarrow> Inl (TypeError (''string indices must be integers, not '' @ quoted ''str''))
      | _ \<Rightarrow> Inl (TypeError (quoted (type_name v) @ '' object is not subscriptable'')))"

text \<open>\<^verbatim>\<open>xs[0]\<close> on a list (line 152).\<close>

definition first_item :: "pyval list \<Rightarrow> exn + pyval" where
  "first_item xs =
     (case xs of [] \<Rightarrow> Inl (IndexError ''list index out of range'') | x # _ \<Rightarrow> Inr x)"

text \<open>
  \<^verbatim>\<open>status in HOMEWORK_VERDICTS\<close> together with \<^verbatim>\<open>HOMEWORK_VERDICTS[status]\<close>: the
  membership test hashes the key first, so a list or a dict raises \<^verbatim>\<open>TypeError\<close>; a
  hashable value that is not a string equals none of the (string) keys.
\<close>

definition verdict_of :: "pyval \<Rightarrow> exn + pystr option" where
  "verdict_of status =
     (case status of
        PStr k \<Rightarrow> Inr (map_of HOMEWORK_VERDICTS k)
      | PList _ \<Rightarrow> Inl (TypeError (''unhashable type: '' @ quoted ''list''))
      | PDict _ \<Rightarrow> Inl (TypeError (''unhashable type: '' @ quoted ''dict''))
      | _ \<Rightarrow> Inr None)"

text \<open>Decimal printing of an \<^verbatim>\<open>int\<close>, as \<^verbatim>\<open>str\<close> and f-strings do.\<close>

definition digit_char :: "nat \<Rightarrow> char" where
  "digit_char d = ''0123456789'' ! d"

fun nat_digits :: "nat \<Rightarrow> pystr" where
  "nat_digits n =
     (if n < 10 then [digit_char n] else nat_digits (n div 10) @ [digit_char (n mod 10)])"

declare nat_digits.simps [simp del]

definition str_int :: "int \<Rightarrow> pystr" where
  "str_int i = (if i < 0 then ''-'' @ nat_digits (nat (- i)) else nat_digits (nat i))"

text \<open>
  Reading a decimal text back, as \<^verbatim>\<open>int(text)\<close> does: it is used to say that a text
  carries a number.
\<close>

definition digit_of :: "char \<Rightarrow> nat" where
  "digit_of c = of_char c - 48"

definition dec_nat :: "pystr \<Rightarrow> nat" where
  "dec_nat t = foldl (\<lambda>n c. 10 * n + digit_of c) 0 t"

definition int_of_text :: "pystr \<Rightarrow> int" where
  "int_of_text t =
     (case t of
        [] \<Rightarrow> 0
      | c # ds \<Rightarrow> if c = CHR ''-'' then - int (dec_nat ds) else int (dec_nat t))"

text \<open>
  What an f-string puts in place of \<^verbatim>\<open>{v}\<close>. The printing of floats, lists and dicts
  belongs to the interpreter and is taken as the parameter \<open>other\<close>.
\<close>

definition py_str :: "(pyval \<Rightarrow> pystr) \<Rightarrow> pyval \<Rightarrow> pystr" where
  "py_str other v =
     (case v of
        PNone \<Rightarrow> ''None''
      | PBool b \<Rightarrow> (if b then ''True'' else ''False'')
      | PInt i \<Rightarrow> str_int i
      | PStr t \<Rightarrow> t
      | _ \<Rightarrow> other v)"

section \<open>The functions of the module\<close>

subsection \<open>\<^verbatim>\<open>check_tokens\<close> (lines 70-88)\<close>

definition check_tokens :: "config \<Rightarrow> 'a world_scheme \<Rightarrow> bool \<times> 'a world_scheme" where
  "check_tokens cfg w =
     (if PRACTICUM_TOKEN cfg = None then
        (True, log_call CRITICAL (tokens_msg @ '' PRACTICUM_TOKEN'') w)
      else if TELEGRAM_TOKEN cfg = None then
        (True, log_call CRITICAL (tokens_msg @ '' TELEGRAM_TOKEN'') w)
      else if TELEGRAM_CHAT_ID cfg = None then
        (True, log_call CRITICAL (tokens_msg @ '' TELEGRAM_CHAT_ID'') w)
      else (False, w))"

subsection \<open>\<^verbatim>\<open>send_message\<close> (lines 91-100)\<close>

text \<open>
  The outcome of one call of \<^verbatim>\<open>bot.send_message\<close> is given by the environment:
  \<open>None\<close> when the call returns, \<open>Some e\<close> when it raises \<open>e\<close>.
\<close>

definition bot_send ::
  "config \<Rightarrow> exn option \<Rightarrow> pystr \<Rightarrow> 'a world_scheme \<Rightarrow> (exn + unit) \<times> 'a world_scheme" where
  "bot_send cfg outcome text w =
     ((case outcome of None \<Rightarrow> Inr () | Some e \<Rightarrow> Inl e),
      w\<lparr>sent := sent w @ [(TELEGRAM_CHAT_ID cfg, text)]\<rparr>)"

text \<open>Only \<^verbatim>\<open>telegram.TelegramError\<close> is caught (line 99); anything else goes on to the caller.\<close>

definition send_message ::
  "config \<Rightarrow> exn option \<Rightarrow> pystr \<Rightarrow> 'a world_scheme \<Rightarrow> (exn + unit) \<times> 'a world_scheme" where
  "send_message cfg outcome message w =
     (case bot_send cfg outcome message w of
        (Inr _, w1) \<Rightarrow> (Inr (), log_call DEBUG sent_ok_text w1)
      | (Inl (TelegramError tel_error), w1) \<Rightarrow>
          (Inr (), log_call ERROR (send_failed_prefix @ tel_error @ ''!'') w1)
      | (Inl e, w1) \<Rightarrow> (Inl e, w1))"

subsection \<open>\<^verbatim>\<open>get_api_answer\<close> (lines 103-128)\<close>

text \<open>
  The outcome of \<^verbatim>\<open>requests.get\<close>: it raises, or it returns a response with a status
  code and with what a call of \<^verbatim>\<open>response.json()\<close> would give (the decoded body, or the
  exception raised for a body that is not JSON).
\<close>

datatype http_outcome =
    GetRaises exn
  | Response (status_code: int) (json: "exn + pyval")

text \<open>
  The two \<^verbatim>\<open>except\<close> clauses of lines 120-128, in their order. A \<^verbatim>\<open>RequestException\<close>
  is logged and replaced by \<^verbatim>\<open>RequestExceptionError\<close>. For a \<^verbatim>\<open>json.JSONDecodeError\<close>
  the text is logged, and line 128 then builds \<^verbatim>\<open>json.JSONDecodeError(text_error)\<close> with
  one argument where the constructor needs three (\<^verbatim>\<open>msg, doc, pos\<close>), which raises
  \<^verbatim>\<open>TypeError\<close>. Every other exception, \<^verbatim>\<open>UrlApiError\<close> among them, passes through.
\<close>

definition api_except :: "exn \<Rightarrow> 'a world_scheme \<Rightarrow> (exn + pyval) \<times> 'a world_scheme" where
  "api_except e w =
     (case e of
        RequestException request_error \<Rightarrow>
          (let text_error = request_error_prefix @ request_error
           in (Inl (RequestExceptionError text_error), log_call ERROR text_error w))
      | JSONDecodeError value_error \<Rightarrow>
          (let text_error = value_error_prefix @ value_error
           in (Inl (TypeError
                 (''JSONDecodeError.__init__() missing 2 required positional arguments: ''
                    @ quoted ''doc'' @ '' and '' @ quoted ''pos'')),
               log_call ERROR text_error w))
      | _ \<Rightarrow> (Inl e, w))"

definition get_api_answer ::
  "config \<Rightarrow> (http_request \<Rightarrow> http_outcome) \<Rightarrow> int \<Rightarrow> 'a world_scheme
     \<Rightarrow> (exn + pyval) \<times> 'a world_scheme" where
  "get_api_answer cfg server stamp w =
     (let request = \<lparr>url = ENDPOINT, authorization = HEADERS cfg, from_date = stamp\<rparr>;
          w1 = w\<lparr>requested := requested w @ [request]\<rparr>
      in case server request of
           GetRaises e \<Rightarrow> api_except e w1
         | Response code body \<Rightarrow>
             if code \<noteq> 200 then
               (let api_msg = api_msg_prefix @ ENDPOINT @ api_msg_middle @ str_int code
                in api_except (UrlApiError api_msg) (log_call ERROR api_msg w1))
             else (case body of Inl e \<Rightarrow> api_except e w1 | Inr v \<Rightarrow> (Inr v, w1)))"

subsection \<open>\<^verbatim>\<open>check_response\<close> (lines 131-152)\<close>

definition check_response :: "pyval \<Rightarrow> 'a world_scheme \<Rightarrow> (exn + pyval) \<times> 'a world_scheme" where
  "check_response response w =
     (case response of
        PDict d \<Rightarrow>
          if dict_get d ''homeworks'' = PNone then
            (Inl (EmptyDictionaryOrListError no_homeworks_text),
             log_call ERROR no_homeworks_text w)
          else
            (case dict_get d ''homeworks'' of
               PList homeworks \<Rightarrow> (first_item homeworks, w)
             | _ \<Rightarrow> (Inl (TypeError not_list_text), log_call ERROR not_list_text w))
      | _ \<Rightarrow> (Inl (TypeError not_dict_text), log_call ERROR not_dict_text w))"

subsection \<open>\<^verbatim>\<open>parse_status\<close> (lines 155-175)\<close>

text \<open>
  \<^verbatim>\<open>homework.get\<close> exists on a dict only; on any other value the attribute lookup
  raises \<^verbatim>\<open>AttributeError\<close>. The logging call of lines 172-173 is recorded with its
  text (it passes the name as an argument to a text that has no placeholder for it).
\<close>

definition parse_status ::
  "(pyval \<Rightarrow> pystr) \<Rightarrow> pyval \<Rightarrow> 'a world_scheme \<Rightarrow> (exn + pystr) \<times> 'a world_scheme" where
  "parse_status other homework w =
     (case homework of
        PDict d \<Rightarrow>
          (let status = dict_get d ''status'';
               homework_name = dict_get d ''homework_name''
           in case verdict_of status of
                Inl e \<Rightarrow> (Inl e, w)
              | Inr None \<Rightarrow>
                  (Inl (NotDocumentStatusError unknown_status_text),
                   log_call ERROR unknown_status_text w)
              | Inr (Some verdict) \<Rightarrow>
                  (Inr (status_changed_prefix @ py_str other homework_name
                          @ [CHR 0x22] @ ''. '' @ verdict),
                   if homework_name = PNone then log_call ERROR empty_name_text w else w))
      | _ \<Rightarrow>
          (Inl (AttributeError
             (quoted (type_name homework) @ '' object has no attribute '' @ quoted ''get'')), w))"

section \<open>\<^verbatim>\<open>main\<close> (lines 178-213)\<close>

text \<open>
  What the outside supplies to one pass of the \<^verbatim>\<open>while True\<close> loop: the server's
  answer to the request, the outcome of the bot call of line 199 (through
  \<^verbatim>\<open>send_message\<close>) and the outcome of the bot call of line 210, each used only if the
  pass reaches that line.
\<close>

record env =
  server :: "http_request \<Rightarrow> http_outcome"
  status_delivery :: "exn option"
  failure_delivery :: "exn option"

text \<open>
  The condition of line 197, \<^verbatim>\<open>homework and hw_status != homework['status']\<close>:
  \<^verbatim>\<open>and\<close> does not evaluate its right operand when the left one is falsy.
  The variable \<open>hw_status\<close> always holds one of the three keys of the verdict table
  (lemma \<open>run_state\<close> below), and Python's \<^verbatim>\<open>!=\<close> between a \<^verbatim>\<open>str\<close> and any value
  is inequality of the modelled values.
\<close>

definition status_differs :: "pyval \<Rightarrow> pyval \<Rightarrow> exn + bool" where
  "status_differs last_status homework =
     (if \<not> truthy homework then Inr False
      else case subscript homework ''status'' of
             Inl e \<Rightarrow> Inl e
           | Inr status \<Rightarrow> Inr (last_status \<noteq> status))"

text \<open>The body of the \<^verbatim>\<open>try\<close> block, lines 195-204.\<close>

definition poll ::
  "config \<Rightarrow> (pyval \<Rightarrow> pystr) \<Rightarrow> env \<Rightarrow> state \<Rightarrow> (exn + unit) \<times> state" where
  "poll cfg other ev s =
     (case get_api_answer cfg (server ev) (timestamp s) s of
        (Inl e, s1) \<Rightarrow> (Inl e, s1)
      | (Inr response, s1) \<Rightarrow>
     (case check_response response s1 of
        (Inl e, s2) \<Rightarrow> (Inl e, s2)
      | (Inr homework, s2) \<Rightarrow>
     (case status_differs (hw_status s2) homework of
        Inl e \<Rightarrow> (Inl e, s2)
      | Inr False \<Rightarrow> (Inr (), sleep RETRY_PERIOD (log_call INFO no_changes_text s2))
      | Inr True \<Rightarrow>
     (case parse_status other homework s2 of
        (Inl e, s3) \<Rightarrow> (Inl e, s3)
      | (Inr message, s3) \<Rightarrow>
     (case send_message cfg (status_delivery ev) message s3 of
        (Inl e, s4) \<Rightarrow> (Inl e, s4)
      | (Inr _, s4) \<Rightarrow>
     (case subscript homework ''status'' of
        Inl e \<Rightarrow> (Inl e, s4)
      | Inr status \<Rightarrow>
          (Inr (),
           sleep RETRY_PERIOD
             (log_call INFO (status_update_prefix @ py_str other status)
                (s4\<lparr>hw_status := status\<rparr>)))))))))"

text \<open>
  The \<^verbatim>\<open>except Exception\<close> block, lines 206-213. An exception raised by its own
  \<^verbatim>\<open>send_message\<close> call is not inside any \<^verbatim>\<open>try\<close>: it leaves \<^verbatim>\<open>main\<close>.
\<close>

definition on_error :: "config \<Rightarrow> env \<Rightarrow> exn \<Rightarrow> state \<Rightarrow> (exn + unit) \<times> state" where
  "on_error cfg ev error s =
     (let message = failure_prefix @ exn_text error in
      if errors s then
        (case send_message cfg (failure_delivery ev) message (s\<lparr>errors := False\<rparr>) of
           (Inl e, s1) \<Rightarrow> (Inl e, s1)
         | (Inr _, s1) \<Rightarrow>
             (Inr (),
              sleep RETRY_PERIOD (log_call CRITICAL message (log_call DEBUG message s1))))
      else (Inr (), sleep RETRY_PERIOD (log_call CRITICAL message s)))"

text \<open>One pass of the loop. \<open>Inl e\<close> means that \<open>e\<close> left \<^verbatim>\<open>main\<close> and the process ended.\<close>

definition cycle ::
  "config \<Rightarrow> (pyval \<Rightarrow> pystr) \<Rightarrow> env \<Rightarrow> state \<Rightarrow> (exn + unit) \<times> state" where
  "cycle cfg other ev s =
     (case poll cfg other ev s of
        (Inr _, s1) \<Rightarrow> (Inr (), s1)
      | (Inl error, s1) \<Rightarrow> on_error cfg ev error s1)"

text \<open>
  The loop never returns; \<open>run\<close> is its first \<open>length evs\<close> passes, one per element of
  \<open>evs\<close>, stopping early only when an exception leaves \<^verbatim>\<open>main\<close>.
\<close>

fun run ::
  "config \<Rightarrow> (pyval \<Rightarrow> pystr) \<Rightarrow> env list \<Rightarrow> state \<Rightarrow> (exn + unit) \<times> state" where
  "run cfg other [] s = (Inr (), s)"
| "run cfg other (ev # evs) s =
     (case cycle cfg other ev s of
        (Inl e, s1) \<Rightarrow> (Inl e, s1)
      | (Inr _, s1) \<Rightarrow> run cfg other evs s1)"

text \<open>
  Lines 180-191, up to the loop. The environment gives the outcome of creating the bot,
  the outcome of the one bot call made here (line 184 or line 189; neither is guarded)
  and the clock read on line 188.
\<close>

record boot =
  bot_created :: "exn option"
  first_delivery :: "exn option"
  clock :: int

datatype halt = SystemExit | Uncaught exn

datatype started = Halted halt world | Started state

definition no_world :: world where
  "no_world = \<lparr>logged = [], sent = [], requested = [], slept = []\<rparr>"

definition enter_loop :: "world \<Rightarrow> int \<Rightarrow> state" where
  "enter_loop w now =
     \<lparr>logged = logged w, sent = sent w, requested = requested w, slept = slept w,
      hw_status = PStr ''reviewing'', errors = True, timestamp = now\<rparr>"

definition startup :: "config \<Rightarrow> boot \<Rightarrow> started" where
  "startup cfg bt =
     (case bot_created bt of
        Some e \<Rightarrow> Halted (Uncaught e) no_world
      | None \<Rightarrow>
     (case check_tokens cfg no_world of
        (True, w1) \<Rightarrow>
          (case bot_send cfg (first_delivery bt) tokens_failure_text w1 of
             (Inl e, w2) \<Rightarrow> Halted (Uncaught e) w2
           | (Inr _, w2) \<Rightarrow> Halted SystemExit (log_call DEBUG tokens_failure_text w2))
      | (False, w1) \<Rightarrow>
          (case bot_send cfg (first_delivery bt) tracking_started_text w1 of
             (Inl e, w2) \<Rightarrow> Halted (Uncaught e) w2
           | (Inr _, w2) \<Rightarrow> Started (enter_loop w2 (clock bt)))))"

text \<open>
  \<^verbatim>\<open>main\<close> as a whole, followed for \<open>length evs\<close> passes of its loop: it has halted
  (by \<^verbatim>\<open>exit()\<close> or by an exception that nothing caught), or it is still polling.
\<close>

definition main :: "config \<Rightarrow> (pyval \<Rightarrow> pystr) \<Rightarrow> boot \<Rightarrow> env list \<Rightarrow> started" where
  "main cfg other bt evs =
     (case startup cfg bt of
        Halted h w \<Rightarrow> Halted h w
      | Started s \<Rightarrow>
          (case run cfg other evs s of
             (Inl e, s1) \<Rightarrow> Halted (Uncaught e) (world.truncate s1)
           | (Inr _, s1) \<Rightarrow> Started s1))"

text \<open>
  What the claims observe of a run. A failure notice is a bot call whose text starts with
  the text of line 207; \<open>fetch_homework\<close> is the record that lines 195-196 extract;
  \<open>critical_entries\<close> are the logging calls at critical level.
\<close>

definition is_failure_notice :: "pystr option \<times> pystr \<Rightarrow> bool" where
  "is_failure_notice m = (take (length failure_prefix) (snd m) = failure_prefix)"

definition failure_notices :: "'a world_scheme \<Rightarrow> (pystr option \<times> pystr) list" where
  "failure_notices w = filter is_failure_notice (sent w)"

definition is_verdict_key :: "pyval \<Rightarrow> bool" where
  "is_verdict_key v = (case v of PStr k \<Rightarrow> map_of HOMEWORK_VERDICTS k \<noteq> None | _ \<Rightarrow> False)"

definition fetch_homework :: "config \<Rightarrow> env \<Rightarrow> state \<Rightarrow> exn + pyval" where
  "fetch_homework cfg ev s =
     (case get_api_answer cfg (server ev) (timestamp s) s of
        (Inl e, s1) \<Rightarrow> Inl e
      | (Inr response, s1) \<Rightarrow> fst (check_response response s1))"

definition critical_entries :: "'a world_scheme \<Rightarrow> (level \<times> pystr) list" where
  "critical_entries w = filter (\<lambda>entry. fst entry = CRITICAL) (logged w)"

definition is_dict :: "pyval \<Rightarrow> bool" where
  "is_dict v = (case v of PDict _ \<Rightarrow> True | _ \<Rightarrow> False)"

definition is_list :: "pyval \<Rightarrow> bool" where
  "is_list v = (case v of PList _ \<Rightarrow> True | _ \<Rightarrow> False)"

definition hashable :: "pyval \<Rightarrow> bool" where
  "hashable v = (case v of PList _ \<Rightarrow> False | PDict _ \<Rightarrow> False | _ \<Rightarrow> True)"

section \<open>Sample inputs\<close>

text \<open>Concrete configurations, servers and environments on which the theorems are run.\<close>

definition sample_other :: "pyval \<Rightarrow> pystr" where
  "sample_other v = ''<'' @ type_name v @ ''>''"

definition sample_config :: config where
  "sample_config =
     \<lparr>PRACTICUM_TOKEN = Some ''y0_token'', TELEGRAM_TOKEN = Some ''42:bot'',
      TELEGRAM_CHAT_ID = Some ''1001''\<rparr>"

definition sample_boot :: boot where
  "sample_boot = \<lparr>bot_created = None, first_delivery = None, clock = 1700000000\<rparr>"

definition approved_proj1 :: pyval where
  "approved_proj1 = PDict [(''status'', PStr ''approved''), (''homework_name'', PStr ''proj1'')]"

definition server_approved :: "http_request \<Rightarrow> http_outcome" where
  "server_approved request =
     Response 200 (Inr (PDict [(''homeworks'', PList [approved_proj1])]))"

definition server_503 :: "http_request \<Rightarrow> http_outcome" where
  "server_503 request = Response 503 (Inl (JSONDecodeError ''Expecting value''))"

definition server_200_undecodable :: "http_request \<Rightarrow> http_outcome" where
  "server_200_undecodable request =
     Response 200 (Inl (RequestException ''Expecting value: line 1 column 1 (char 0)''))"

definition server_404 :: "http_request \<Rightarrow> http_outcome" where
  "server_404 request = Response 404 (Inr (PDict []))"

definition env_approved :: env where
  "env_approved =
     \<lparr>server = server_approved, status_delivery = None, failure_delivery = None\<rparr>"

definition env_503 :: env where
  "env_503 = \<lparr>server = server_503, status_delivery = None, failure_delivery = None\<rparr>"

definition env_503_undelivered :: env where
  "env_503_undelivered =
     \<lparr>server = server_503, status_delivery = None,
      failure_delivery = Some (TelegramError ''Timed out'')\<rparr>"

definition sample_start :: state where
  "sample_start =
     enter_loop (no_world\<lparr>sent := [(Some ''1001'', tracking_started_text)]\<rparr>) 1700000000"

definition env_503_crash :: env where
  "env_503_crash =
     \<lparr>server = server_503, status_delivery = None,
      failure_delivery = Some (OtherException ''unexpected'')\<rparr>"

definition server_pending :: "http_request \<Rightarrow> http_outcome" where
  "server_pending request =
     Response 200 (Inr (PDict [(''homeworks'', PList [PDict [(''status'', PStr ''pending'')]])]))"

definition env_pending :: env where
  "env_pending = \<lparr>server = server_pending, status_delivery = None, failure_delivery = None\<rparr>"

definition server_empty :: "http_request \<Rightarrow> http_outcome" where
  "server_empty request = Response 200 (Inr (PDict []))"

definition env_empty :: env where
  "env_empty = \<lparr>server = server_empty, status_delivery = None, failure_delivery = None\<rparr>"

definition env_approved_crash :: env where
  "env_approved_crash =
     \<lparr>server = server_approved, status_delivery = Some (OtherException ''unexpected''),
      failure_delivery = None\<rparr>"

definition after_first_failure :: state where
  "after_first_failure = snd (cycle sample_config sample_other env_503 sample_start)"

section \<open>What each function does to the state\<close>

lemmas loop_defs =
  cycle_def poll_def on_error_def fetch_homework_def get_api_answer_def
  api_except_def check_response_def parse_status_def send_message_def bot_send_def
  status_differs_def subscript_def truthy_def dict_get_def first_item_def verdict_of_def
  HOMEWORK_VERDICTS_def py_str_def log_call_def sleep_def Let_def
  startup_def check_tokens_def enter_loop_def no_world_def

lemmas sample_defs =
  sample_config_def sample_boot_def sample_start_def approved_proj1_def server_approved_def
  server_503_def env_approved_def env_503_def env_503_undelivered_def env_503_crash_def
  server_pending_def env_pending_def env_approved_crash_def after_first_failure_def
  server_empty_def env_empty_def

lemma get_api_answer_state:
  fixes s :: state
  shows "get_api_answer cfg srv ts s = (r, s1) \<Longrightarrow>
     hw_status s1 = hw_status s \<and> errors s1 = errors s \<and> timestamp s1 = timestamp s \<and>
     sent s1 = sent s \<and>
     requested s1 = requested s @ [\<lparr>url = ENDPOINT, authorization = HEADERS cfg, from_date = ts\<rparr>]"
  by (auto simp: get_api_answer_def api_except_def log_call_def Let_def
           split: http_outcome.splits exn.splits sum.splits if_splits)

lemma check_response_state:
  fixes s :: state
  shows "check_response response s = (r, s1) \<Longrightarrow>
     hw_status s1 = hw_status s \<and> errors s1 = errors s \<and> timestamp s1 = timestamp s \<and>
     sent s1 = sent s \<and> requested s1 = requested s"
  by (auto simp: check_response_def log_call_def split: pyval.splits if_splits)

lemma parse_status_state:
  fixes s :: state
  shows "parse_status other homework s = (r, s1) \<Longrightarrow>
     hw_status s1 = hw_status s \<and> errors s1 = errors s \<and> timestamp s1 = timestamp s \<and>
     sent s1 = sent s \<and> requested s1 = requested s"
  by (auto simp: parse_status_def log_call_def Let_def
           split: pyval.splits sum.splits option.splits if_splits)

lemma send_message_state:
  fixes s :: state
  shows "send_message cfg outcome message s = (r, s1) \<Longrightarrow>
     hw_status s1 = hw_status s \<and> errors s1 = errors s \<and> timestamp s1 = timestamp s \<and>
     sent s1 = sent s @ [(TELEGRAM_CHAT_ID cfg, message)] \<and> requested s1 = requested s"
  by (auto simp: send_message_def bot_send_def log_call_def
           split: option.splits exn.splits sum.splits)

lemma subscript_truthy: "subscript v key = Inr x \<Longrightarrow> truthy v"
  by (auto simp: subscript_def truthy_def split: pyval.splits option.splits)

lemma parse_status_text:
  "parse_status other homework w = (Inr message, w1) \<Longrightarrow>
     \<exists>rest. message = status_changed_prefix @ rest"
  by (auto simp: parse_status_def Let_def split: pyval.splits sum.splits option.splits)

lemma parse_status_key:
  "parse_status other homework w = (Inr message, w1) \<Longrightarrow> subscript homework ''status'' = Inr st
    \<Longrightarrow> is_verdict_key st"
  by (auto simp: parse_status_def Let_def subscript_def is_verdict_key_def dict_get_def verdict_of_def split: pyval.splits sum.splits option.splits)

lemma status_notice_is_no_failure_notice:
  "\<not> is_failure_notice (c, status_changed_prefix @ rest)"
  by (simp add: is_failure_notice_def failure_prefix_def status_changed_prefix_def)

lemma failure_notice_is_failure_notice:
  "is_failure_notice (c, failure_prefix @ rest)"
  by (simp add: is_failure_notice_def)


lemma poll_state:
  assumes P: "poll cfg other ev s = (r, s1)"
  shows "errors s1 = errors s \<and> timestamp s1 = timestamp s \<and>
         failure_notices s1 = failure_notices s \<and>
         requested s1 = requested s @
           [\<lparr>url = ENDPOINT, authorization = HEADERS cfg, from_date = timestamp s\<rparr>] \<and>
         (\<forall>e. r = Inl e \<longrightarrow> hw_status s1 = hw_status s) \<and>
         (is_verdict_key (hw_status s) \<longrightarrow> is_verdict_key (hw_status s1))"
proof -
  obtain ra sa where A: "get_api_answer cfg (server ev) (timestamp s) s = (ra, sa)"
    by (cases "get_api_answer cfg (server ev) (timestamp s) s")
  note a = get_api_answer_state [OF A]
  show ?thesis
  proof (cases ra)
    case (Inl e)
    with P A have "r = Inl e" "s1 = sa" by (simp_all add: poll_def)
    with a show ?thesis by (simp add: failure_notices_def)
  next
    case ra: (Inr response)
    obtain rb sb where B: "check_response response sa = (rb, sb)"
      by (cases "check_response response sa")
    note b = check_response_state [OF B]
    show ?thesis
    proof (cases rb)
      case (Inl e)
      with P A B ra have "r = Inl e" "s1 = sb" by (simp_all add: poll_def)
      with a b show ?thesis by (simp add: failure_notices_def)
    next
      case rb: (Inr homework)
      show ?thesis
      proof (cases "status_differs (hw_status sb) homework")
        case (Inl e)
        with P A B ra rb have "r = Inl e" "s1 = sb" by (simp_all add: poll_def)
        with a b show ?thesis by (simp add: failure_notices_def)
      next
        case differs: (Inr changed)
        show ?thesis
        proof (cases changed)
          case False
          with P A B ra rb differs
          have "r = Inr ()" "s1 = sleep RETRY_PERIOD (log_call INFO no_changes_text sb)"
            by (simp_all add: poll_def)
          with a b show ?thesis by (simp add: failure_notices_def sleep_def log_call_def)
        next
          case True
          obtain rc sc where C: "parse_status other homework sb = (rc, sc)"
            by (cases "parse_status other homework sb")
          note c = parse_status_state [OF C]
          show ?thesis
          proof (cases rc)
            case (Inl e)
            with P A B C ra rb differs True have "r = Inl e" "s1 = sc"
              by (simp_all add: poll_def)
            with a b c show ?thesis by (simp add: failure_notices_def)
          next
            case rc: (Inr message)
            obtain rd sd where D: "send_message cfg (status_delivery ev) message sc = (rd, sd)"
              by (cases "send_message cfg (status_delivery ev) message sc")
            note d = send_message_state [OF D]
            from C rc obtain rest where rest: "message = status_changed_prefix @ rest"
              using parse_status_text by blast
            have notices: "failure_notices sd = failure_notices s"
              using a b c d rest
              by (simp add: failure_notices_def status_notice_is_no_failure_notice)
            show ?thesis
            proof (cases rd)
              case (Inl e)
              with P A B C D ra rb rc differs True have "r = Inl e" "s1 = sd"
                by (simp_all add: poll_def)
              with a b c d notices show ?thesis by simp
            next
              case rd: (Inr u)
              show ?thesis
              proof (cases "subscript homework ''status''")
                case (Inl e)
                with P A B C D ra rb rc rd differs True have "r = Inl e" "s1 = sd"
                  by (simp_all add: poll_def)
                with a b c d notices show ?thesis by simp
              next
                case st: (Inr status)
                with P A B C D ra rb rc rd differs True
                have "r = Inr ()"
                  "s1 = sleep RETRY_PERIOD
                     (log_call INFO (status_update_prefix @ py_str other status)
                        (sd\<lparr>hw_status := status\<rparr>))"
                  by (simp_all add: poll_def)
                moreover have "is_verdict_key status"
                  using C rc st parse_status_key by blast
                ultimately show ?thesis
                  using a b c d notices
                  by (simp add: failure_notices_def sleep_def log_call_def)
              qed
            qed
          qed
        qed
      qed
    qed
  qed
qed


lemma on_error_state:
  assumes H: "on_error cfg ev error s = (r, s1)"
  shows "hw_status s1 = hw_status s \<and> timestamp s1 = timestamp s \<and>
         requested s1 = requested s \<and> \<not> errors s1 \<and>
         (errors s \<longrightarrow> sent s1 = sent s @ [(TELEGRAM_CHAT_ID cfg, failure_prefix @ exn_text error)]) \<and>
         (\<not> errors s \<longrightarrow> sent s1 = sent s \<and> r = Inr ()) \<and>
         (r = Inr () \<longrightarrow>
            (\<exists>pre. logged s1 = logged s @ pre @ [(CRITICAL, failure_prefix @ exn_text error)]))"
proof (cases "errors s")
  case False
  with H have "r = Inr ()"
    "s1 = sleep RETRY_PERIOD (log_call CRITICAL (failure_prefix @ exn_text error) s)"
    by (simp_all add: on_error_def Let_def)
  with False show ?thesis by (simp add: sleep_def log_call_def)
next
  case True
  let ?message = "failure_prefix @ exn_text error"
  obtain rd sd where D: "send_message cfg (failure_delivery ev) ?message (s\<lparr>errors := False\<rparr>) = (rd, sd)"
    by (cases "send_message cfg (failure_delivery ev) ?message (s\<lparr>errors := False\<rparr>)")
  note d = send_message_state [OF D]
  from D obtain l where l: "logged sd = logged s @ l"
    by (auto simp: send_message_def bot_send_def log_call_def
             split: option.splits exn.splits sum.splits)
  show ?thesis
  proof (cases rd)
    case (Inl e)
    with H D True have "r = Inl e" "s1 = sd" by (simp_all add: on_error_def Let_def)
    with d True show ?thesis by simp
  next
    case (Inr u)
    with H D True have "r = Inr ()"
      "s1 = sleep RETRY_PERIOD (log_call CRITICAL ?message (log_call DEBUG ?message sd))"
      by (simp_all add: on_error_def Let_def)
    with d l True show ?thesis by (simp add: sleep_def log_call_def)
  qed
qed

lemma cycle_state:
  assumes C: "cycle cfg other ev s = (r, s1)"
  shows "timestamp s1 = timestamp s \<and>
         requested s1 = requested s @
           [\<lparr>url = ENDPOINT, authorization = HEADERS cfg, from_date = timestamp s\<rparr>] \<and>
         (\<not> errors s \<longrightarrow> \<not> errors s1 \<and> failure_notices s1 = failure_notices s) \<and>
         (errors s \<longrightarrow> failure_notices s1 = failure_notices s \<or>
             (\<not> errors s1 \<and> (\<exists>m. failure_notices s1 = failure_notices s @ [m]))) \<and>
         (is_verdict_key (hw_status s) \<longrightarrow> is_verdict_key (hw_status s1))"
proof -
  obtain rp sp where P: "poll cfg other ev s = (rp, sp)"
    by (cases "poll cfg other ev s")
  note p = poll_state [OF P]
  show ?thesis
  proof (cases rp)
    case (Inr u)
    with C P have "s1 = sp" by (simp add: cycle_def)
    with p show ?thesis by simp
  next
    case (Inl e)
    with C P have "on_error cfg ev e sp = (r, s1)" by (simp add: cycle_def)
    note h = on_error_state [OF this]
    from p h Inl show ?thesis
      by (cases "errors s") (simp_all add: failure_notices_def failure_notice_is_failure_notice)
  qed
qed

lemma run_state:
  "run cfg other evs s = (r, s1) \<Longrightarrow>
     timestamp s1 = timestamp s \<and>
     (\<forall>q \<in> set (requested s1). q \<in> set (requested s) \<or> from_date q = timestamp s) \<and>
     (\<not> errors s \<longrightarrow> \<not> errors s1 \<and> failure_notices s1 = failure_notices s) \<and>
     (errors s \<longrightarrow> length (failure_notices s1) \<le> Suc (length (failure_notices s))) \<and>
     (r = Inr () \<longrightarrow> map from_date (requested s1) =
        map from_date (requested s) @ replicate (length evs) (timestamp s)) \<and>
     (is_verdict_key (hw_status s) \<longrightarrow> is_verdict_key (hw_status s1))"
proof (induction evs arbitrary: s)
  case Nil
  then show ?case by simp
next
  case (Cons ev evs)
  obtain rc sc where C: "cycle cfg other ev s = (rc, sc)"
    by (cases "cycle cfg other ev s")
  note c = cycle_state [OF C]
  show ?case
  proof (cases rc)
    case (Inl e)
    with Cons.prems C have "r = Inl e" "s1 = sc" by simp_all
    with c show ?thesis by (cases "errors s") auto
  next
    case (Inr u)
    with Cons.prems C have R: "run cfg other evs sc = (r, s1)" by simp
    note ih = Cons.IH [OF R]
    from c ih show ?thesis
      by (cases "errors s"; cases "errors sc") (auto simp: replicate_append_same)
  qed
qed

lemma startup_state:
  assumes "startup cfg bt = Started s0"
  shows "hw_status s0 = PStr ''reviewing'' \<and> errors s0 \<and> timestamp s0 = clock bt \<and>
         logged s0 = [] \<and> requested s0 = [] \<and> slept s0 = [] \<and>
         sent s0 = [(TELEGRAM_CHAT_ID cfg, tracking_started_text)] \<and>
         failure_notices s0 = [] \<and> \<not> fst (check_tokens cfg no_world)"
  using assms
  by (auto simp: startup_def check_tokens_def bot_send_def enter_loop_def no_world_def
        log_call_def failure_notices_def is_failure_notice_def failure_prefix_def
        tracking_started_text_def
        split: option.splits if_splits sum.splits)

lemma fetch_homework_poll:
  assumes F: "fetch_homework cfg ev s = Inr homework"
  obtains response sa sb where
    "get_api_answer cfg (server ev) (timestamp s) s = (Inr response, sa)"
    "check_response response sa = (Inr homework, sb)"
proof -
  obtain ra sa where A: "get_api_answer cfg (server ev) (timestamp s) s = (ra, sa)"
    by (cases "get_api_answer cfg (server ev) (timestamp s) s")
  with F obtain response where ra: "ra = Inr response"
    by (cases ra) (simp_all add: fetch_homework_def)
  obtain rb sb where B: "check_response response sa = (rb, sb)"
    by (cases "check_response response sa")
  with F A ra have "rb = Inr homework" by (simp add: fetch_homework_def)
  with A B ra that show thesis by simp
qed

lemma poll_same_status:
  assumes F: "fetch_homework cfg ev s = Inr homework"
    and S: "subscript homework ''status'' = Inr (hw_status s)"
  shows "fst (poll cfg other ev s) = Inr () \<and>
         sent (snd (poll cfg other ev s)) = sent s \<and>
         hw_status (snd (poll cfg other ev s)) = hw_status s"
proof -
  from F obtain response sa sb where
    A: "get_api_answer cfg (server ev) (timestamp s) s = (Inr response, sa)" and
    B: "check_response response sa = (Inr homework, sb)"
    by (rule fetch_homework_poll)
  note a = get_api_answer_state [OF A] and b = check_response_state [OF B]
  from a b S have "status_differs (hw_status sb) homework = Inr False"
    by (simp add: status_differs_def subscript_truthy [OF S])
  with A B have "poll cfg other ev s =
      (Inr (), sleep RETRY_PERIOD (log_call INFO no_changes_text sb))"
    by (simp add: poll_def)
  with a b show ?thesis by (simp add: sleep_def log_call_def)
qed

lemma poll_takes_status:
  assumes P: "fst (poll cfg other ev s) = Inr ()"
    and F: "fetch_homework cfg ev s = Inr homework"
    and S: "subscript homework ''status'' = Inr status"
  shows "hw_status (snd (poll cfg other ev s)) = status"
proof (cases "hw_status s = status")
  case True
  with poll_same_status [OF F] S show ?thesis by simp
next
  case False
  from F obtain response sa sb where
    A: "get_api_answer cfg (server ev) (timestamp s) s = (Inr response, sa)" and
    B: "check_response response sa = (Inr homework, sb)"
    by (rule fetch_homework_poll)
  note a = get_api_answer_state [OF A] and b = check_response_state [OF B]
  from a b S False have D: "status_differs (hw_status sb) homework = Inr True"
    by (simp add: status_differs_def subscript_truthy [OF S])
  obtain rc sc where C: "parse_status other homework sb = (rc, sc)"
    by (cases "parse_status other homework sb")
  show ?thesis
  proof (cases rc)
    case (Inl e)
    with P A B C D show ?thesis by (simp add: poll_def)
  next
    case rc: (Inr message)
    obtain rd sd where E: "send_message cfg (status_delivery ev) message sc = (rd, sd)"
      by (cases "send_message cfg (status_delivery ev) message sc")
    show ?thesis
    proof (cases rd)
      case (Inl e)
      with P A B C D E rc show ?thesis by (simp add: poll_def)
    next
      case (Inr u)
      with A B C D E S rc show ?thesis
        by (simp add: poll_def sleep_def log_call_def)
    qed
  qed
qed

lemma cycle_of_poll:
  "fst (poll cfg other ev s) = Inr () \<Longrightarrow>
     cycle cfg other ev s = (Inr (), snd (poll cfg other ev s))"
  by (cases "poll cfg other ev s") (auto simp: cycle_def)

lemma on_error_returns:
  assumes "\<not> errors s \<or> failure_delivery ev = None
             \<or> failure_delivery ev = Some (TelegramError t)"
  shows "fst (on_error cfg ev e s) = Inr ()"
  using assms
  by (auto simp: on_error_def send_message_def bot_send_def Let_def)

lemma tracking_started_is_no_failure_notice:
  "\<not> is_failure_notice (c, tracking_started_text)"
  by (simp add: is_failure_notice_def failure_prefix_def tracking_started_text_def)

lemma below_ten: "d < 10 \<Longrightarrow> d \<in> {0, 1, 2, 3, 4, 5, 6, 7, 8, 9::nat}"
  by auto

lemma digit_of_digit_char: "d < 10 \<Longrightarrow> digit_of (digit_char d) = d"
  by (drule below_ten) (auto simp: digit_of_def digit_char_def)

lemma digit_char_no_sign: "d < 10 \<Longrightarrow> digit_char d \<noteq> CHR ''-''"
  by (drule below_ten) (auto simp: digit_char_def)

lemma dec_nat_snoc: "dec_nat (ds @ [c]) = 10 * dec_nat ds + digit_of c"
  by (simp add: dec_nat_def)

lemma dec_nat_digits: "dec_nat (nat_digits n) = n"
proof (induction n rule: nat_digits.induct)
  case (1 n)
  show ?case
  proof (cases "n < 10")
    case True
    then show ?thesis
      by (simp add: nat_digits.simps [of n] dec_nat_def digit_of_digit_char)
  next
    case False
    with 1 show ?thesis
      by (simp add: nat_digits.simps [of n] dec_nat_snoc digit_of_digit_char)
  qed
qed

lemma nat_digits_head: "\<exists>c ds. nat_digits n = c # ds \<and> c \<noteq> CHR ''-''"
proof (induction n rule: nat_digits.induct)
  case (1 n)
  show ?case
  proof (cases "n < 10")
    case True
    then show ?thesis
      by (simp add: nat_digits.simps [of n] digit_char_no_sign)
  next
    case False
    with 1 obtain c ds where "nat_digits (n div 10) = c # ds" "c \<noteq> CHR ''-''"
      by blast
    with False show ?thesis
      by (simp add: nat_digits.simps [of n])
  qed
qed

lemma int_of_text_str_int: "int_of_text (str_int i) = i"
proof (cases "i < 0")
  case True
  then show ?thesis
    by (simp add: str_int_def int_of_text_def dec_nat_digits)
next
  case False
  obtain c ds where "nat_digits (nat i) = c # ds" "c \<noteq> CHR ''-''"
    using nat_digits_head by blast
  with False dec_nat_digits [of "nat i"] show ?thesis
    by (simp add: str_int_def int_of_text_def)
qed

lemma api_except_fails: "isl (fst (api_except e w))"
  by (cases e) (simp_all add: api_except_def Let_def)

lemma send_message_returned:
  "send_message cfg None message w =
     (Inr (),
      log_call DEBUG sent_ok_text (w\<lparr>sent := sent w @ [(TELEGRAM_CHAT_ID cfg, message)]\<rparr>))"
  by (simp add: send_message_def bot_send_def)

section \<open>Claims about the functions\<close>

text \<open>
  C1 (a defect of the code). Lines 166-169 and the docstring of
  \<^verbatim>\<open>NotDocumentStatusError\<close> (lines 40-44) mean every status outside the verdict table
  to end in \<^verbatim>\<open>NotDocumentStatusError\<close>, as the claim says. For the record
  \<^verbatim>\<open>{"status": []}\<close>, and for a record whose status is a dict, the test
  \<^verbatim>\<open>status not in HOMEWORK_VERDICTS\<close> of line 166 has to hash the status and raises
  \<^verbatim>\<open>TypeError\<close> before line 167 is reached; nothing is logged.
\<close>

theorem parse_status_unhashable_status:
  "parse_status sample_other (PDict [(''status'', PList [])]) no_world
     = (Inl (TypeError (''unhashable type: '' @ quoted ''list'')), no_world) \<and>
   parse_status sample_other (PDict [(''status'', PDict [])]) no_world
     = (Inl (TypeError (''unhashable type: '' @ quoted ''dict'')), no_world) \<and>
   fst (parse_status sample_other (PDict [(''status'', PList [])]) no_world)
     \<noteq> Inl (NotDocumentStatusError unknown_status_text)"
  by (simp add: parse_status_def dict_get_def verdict_of_def)

text \<open>
  On every other record \<^verbatim>\<open>parse_status\<close> does what the claim says. For a status
  \<^verbatim>\<open>approved\<close>, \<^verbatim>\<open>reviewing\<close> or \<^verbatim>\<open>rejected\<close> it returns the sentence made of the
  fixed opening, the homework name (a string name as it is, \<^verbatim>\<open>None\<close> for a missing
  one), a closing quote, a full stop, a space and the verdict text of the table. For
  any other hashable status (missing or null, a boolean, a number, a string outside
  the table) it fails with \<^verbatim>\<open>NotDocumentStatusError\<close>.
\<close>

lemma parse_status_verdicts:
  "(dict_get d ''status'' = PStr ''approved'' \<longrightarrow>
      fst (parse_status other (PDict d) w) =
        Inr (status_changed_prefix @ py_str other (dict_get d ''homework_name'')
               @ [CHR 0x22] @ ''. '' @ verdict_approved)) \<and>
   (dict_get d ''status'' = PStr ''reviewing'' \<longrightarrow>
      fst (parse_status other (PDict d) w) =
        Inr (status_changed_prefix @ py_str other (dict_get d ''homework_name'')
               @ [CHR 0x22] @ ''. '' @ verdict_reviewing)) \<and>
   (dict_get d ''status'' = PStr ''rejected'' \<longrightarrow>
      fst (parse_status other (PDict d) w) =
        Inr (status_changed_prefix @ py_str other (dict_get d ''homework_name'')
               @ [CHR 0x22] @ ''. '' @ verdict_rejected)) \<and>
   py_str other (PStr name) = name \<and>
   py_str other PNone = ''None'' \<and>
   (hashable (dict_get d ''status'') \<and>
    dict_get d ''status'' \<notin> {PStr ''approved'', PStr ''reviewing'', PStr ''rejected''} \<longrightarrow>
      fst (parse_status other (PDict d) w) =
        Inl (NotDocumentStatusError unknown_status_text)) \<and>
   (\<not> hashable (dict_get d ''status'') \<longrightarrow>
      (\<exists>t. fst (parse_status other (PDict d) w) = Inl (TypeError t)))"
  by (cases "dict_get d ''status''")
     (auto simp: parse_status_def verdict_of_def HOMEWORK_VERDICTS_def hashable_def
        py_str_def Let_def)

text \<open>
  The record of the specification's Scenario A (the whole message, byte for byte), a
  record with the status \<^verbatim>\<open>pending\<close> and a record without status.
\<close>

lemma parse_status_scenarios:
  "fst (parse_status sample_other approved_proj1 no_world) =
     Inr [CHR 0xD0, CHR 0x98, CHR 0xD0, CHR 0xB7, CHR 0xD0, CHR 0xBC, CHR 0xD0, CHR 0xB5,
          CHR 0xD0, CHR 0xBD, CHR 0xD0, CHR 0xB8, CHR 0xD0, CHR 0xBB, CHR 0xD1, CHR 0x81,
          CHR 0xD1, CHR 0x8F, CHR 0x20, CHR 0xD1, CHR 0x81, CHR 0xD1, CHR 0x82, CHR 0xD0,
          CHR 0xB0, CHR 0xD1, CHR 0x82, CHR 0xD1, CHR 0x83, CHR 0xD1, CHR 0x81, CHR 0x20,
          CHR 0xD0, CHR 0xBF, CHR 0xD1, CHR 0x80, CHR 0xD0, CHR 0xBE, CHR 0xD0, CHR 0xB2,
          CHR 0xD0, CHR 0xB5, CHR 0xD1, CHR 0x80, CHR 0xD0, CHR 0xBA, CHR 0xD0, CHR 0xB8,
          CHR 0x20, CHR 0xD1, CHR 0x80, CHR 0xD0, CHR 0xB0, CHR 0xD0, CHR 0xB1, CHR 0xD0,
          CHR 0xBE, CHR 0xD1, CHR 0x82, CHR 0xD1, CHR 0x8B, CHR 0x20, CHR 0x22, CHR 0x70,
          CHR 0x72, CHR 0x6F, CHR 0x6A, CHR 0x31, CHR 0x22, CHR 0x2E, CHR 0x20, CHR 0xD0,
          CHR 0xA0, CHR 0xD0, CHR 0xB0, CHR 0xD0, CHR 0xB1, CHR 0xD0, CHR 0xBE, CHR 0xD1,
          CHR 0x82, CHR 0xD0, CHR 0xB0, CHR 0x20, CHR 0xD0, CHR 0xBF, CHR 0xD1, CHR 0x80,
          CHR 0xD0, CHR 0xBE, CHR 0xD0, CHR 0xB2, CHR 0xD0, CHR 0xB5, CHR 0xD1, CHR 0x80,
          CHR 0xD0, CHR 0xB5, CHR 0xD0, CHR 0xBD, CHR 0xD0, CHR 0xB0, CHR 0x3A, CHR 0x20,
          CHR 0xD1, CHR 0x80, CHR 0xD0, CHR 0xB5, CHR 0xD0, CHR 0xB2, CHR 0xD1, CHR 0x8C,
          CHR 0xD1, CHR 0x8E, CHR 0xD0, CHR 0xB5, CHR 0xD1, CHR 0x80, CHR 0xD1, CHR 0x83,
          CHR 0x20, CHR 0xD0, CHR 0xB2, CHR 0xD1, CHR 0x81, CHR 0xD1, CHR 0x91, CHR 0x20,
          CHR 0xD0, CHR 0xBF, CHR 0xD0, CHR 0xBE, CHR 0xD0, CHR 0xBD, CHR 0xD1, CHR 0x80,
          CHR 0xD0, CHR 0xB0, CHR 0xD0, CHR 0xB2, CHR 0xD0, CHR 0xB8, CHR 0xD0, CHR 0xBB,
          CHR 0xD0, CHR 0xBE, CHR 0xD1, CHR 0x81, CHR 0xD1, CHR 0x8C, CHR 0x2E, CHR 0x20,
          CHR 0xD0, CHR 0xA3, CHR 0xD1, CHR 0x80, CHR 0xD0, CHR 0xB0, CHR 0x21] \<and>
   fst (parse_status sample_other (PDict [(''status'', PStr ''pending'')]) no_world) =
     Inl (NotDocumentStatusError unknown_status_text) \<and>
   fst (parse_status sample_other (PDict [(''homework_name'', PStr ''proj1'')]) no_world) =
     Inl (NotDocumentStatusError unknown_status_text)"
  using parse_status_verdicts
    [of "[(''status'', PStr ''approved''), (''homework_name'', PStr ''proj1'')]"
        sample_other no_world "''proj1''"]
    parse_status_verdicts [of "[(''status'', PStr ''pending'')]" sample_other no_world "[]"]
    parse_status_verdicts
      [of "[(''homework_name'', PStr ''proj1'')]" sample_other no_world "[]"]
  by (simp add: approved_proj1_def dict_get_def hashable_def py_str_def
        status_changed_prefix_def verdict_approved_def)

text \<open>
  C2. \<^verbatim>\<open>check_response\<close> makes its three checks in order, and the first one that fails
  logs its text at error level and raises: a value that is not a dict raises
  \<^verbatim>\<open>TypeError\<close> with the "not a dictionary" text; a dict without the key \<^verbatim>\<open>homeworks\<close>,
  or with \<^verbatim>\<open>None\<close> under it, raises \<^verbatim>\<open>EmptyDictionaryOrListError\<close>; a dict whose
  \<^verbatim>\<open>homeworks\<close> value is neither \<^verbatim>\<open>None\<close> nor a list raises \<^verbatim>\<open>TypeError\<close> with the
  "not a list" text.
\<close>

theorem check_response_rejects:
  "(\<not> is_dict response \<longrightarrow>
      check_response response w =
        (Inl (TypeError not_dict_text), log_call ERROR not_dict_text w)) \<and>
   (map_of d ''homeworks'' = None \<or> map_of d ''homeworks'' = Some PNone \<longrightarrow>
      check_response (PDict d) w =
        (Inl (EmptyDictionaryOrListError no_homeworks_text),
         log_call ERROR no_homeworks_text w)) \<and>
   (map_of d ''homeworks'' = Some v \<and> v \<noteq> PNone \<and> \<not> is_list v \<longrightarrow>
      check_response (PDict d) w =
        (Inl (TypeError not_list_text), log_call ERROR not_list_text w))"
proof (intro conjI impI)
  assume "\<not> is_dict response"
  then show "check_response response w =
      (Inl (TypeError not_dict_text), log_call ERROR not_dict_text w)"
    by (cases response) (simp_all add: check_response_def is_dict_def)
next
  assume "map_of d ''homeworks'' = None \<or> map_of d ''homeworks'' = Some PNone"
  then have "dict_get d ''homeworks'' = PNone"
    by (auto simp: dict_get_def)
  then show "check_response (PDict d) w =
      (Inl (EmptyDictionaryOrListError no_homeworks_text),
       log_call ERROR no_homeworks_text w)"
    by (simp add: check_response_def)
next
  assume "map_of d ''homeworks'' = Some v \<and> v \<noteq> PNone \<and> \<not> is_list v"
  then have "dict_get d ''homeworks'' = v" "v \<noteq> PNone" "\<not> is_list v"
    by (simp_all add: dict_get_def)
  then show "check_response (PDict d) w =
      (Inl (TypeError not_list_text), log_call ERROR not_list_text w)"
    by (cases v) (simp_all add: check_response_def is_list_def)
qed

theorem check_response_rejects_witness:
  "check_response (PList []) no_world =
     (Inl (TypeError not_dict_text), log_call ERROR not_dict_text no_world) \<and>
   check_response (PDict [(''current_date'', PInt 1700000000)]) no_world =
     (Inl (EmptyDictionaryOrListError no_homeworks_text),
      log_call ERROR no_homeworks_text no_world) \<and>
   check_response (PDict [(''homeworks'', PNone)]) no_world =
     (Inl (EmptyDictionaryOrListError no_homeworks_text),
      log_call ERROR no_homeworks_text no_world) \<and>
   check_response (PDict [(''homeworks'', approved_proj1)]) no_world =
     (Inl (TypeError not_list_text), log_call ERROR not_list_text no_world)"
  using check_response_rejects
      [of "PList []" no_world "[(''current_date'', PInt 1700000000)]" PNone]
    check_response_rejects
      [of PNone no_world "[(''homeworks'', PNone)]" PNone]
    check_response_rejects
      [of PNone no_world "[(''homeworks'', approved_proj1)]" approved_proj1]
  by (simp add: is_dict_def is_list_def approved_proj1_def)

text \<open>
  C3 (as stated, refuted). The claim says that \<^verbatim>\<open>get_api_answer\<close> returns the parsed
  body for every response with status code 200. When the body of such a response is not
  JSON, \<^verbatim>\<open>response.json()\<close> on line 118 raises; the clause of line 120 catches the
  exception, logs it and raises \<^verbatim>\<open>RequestExceptionError\<close>.
\<close>

theorem get_api_answer_200_undecodable:
  "fst (get_api_answer sample_config server_200_undecodable 1700000000 no_world) =
     Inl (RequestExceptionError
            (request_error_prefix @ ''Expecting value: line 1 column 1 (char 0)'')) \<and>
   isl (fst (get_api_answer sample_config server_200_undecodable 1700000000 no_world))"
  by (simp add: get_api_answer_def api_except_def server_200_undecodable_def Let_def)

text \<open>
  C3 (amended). When the response has a status code other than 200, \<^verbatim>\<open>get_api_answer\<close>
  logs and raises \<^verbatim>\<open>UrlApiError\<close> with a text made of the endpoint URL and the status
  code in decimal (reading the digits back gives the code); the result does not mention
  what \<^verbatim>\<open>response.json()\<close> would give, so the body is not parsed. When the status code
  is 200 and the body decodes to \<open>v\<close>, it returns \<open>v\<close>; when the status code is 200 and
  the body does not decode, it raises.
\<close>

theorem get_api_answer_by_status_code:
  "srv \<lparr>url = ENDPOINT, authorization = HEADERS cfg, from_date = stamp\<rparr> = Response code body
   \<Longrightarrow>
   (code \<noteq> 200 \<longrightarrow>
      get_api_answer cfg srv stamp w =
        (Inl (UrlApiError (api_msg_prefix @ ENDPOINT @ api_msg_middle @ str_int code)),
         log_call ERROR (api_msg_prefix @ ENDPOINT @ api_msg_middle @ str_int code)
           (w\<lparr>requested := requested w @
                [\<lparr>url = ENDPOINT, authorization = HEADERS cfg, from_date = stamp\<rparr>]\<rparr>))) \<and>
   int_of_text (str_int code) = code \<and>
   (code = 200 \<and> body = Inr v \<longrightarrow>
      get_api_answer cfg srv stamp w =
        (Inr v,
         w\<lparr>requested := requested w @
              [\<lparr>url = ENDPOINT, authorization = HEADERS cfg, from_date = stamp\<rparr>]\<rparr>)) \<and>
   (code = 200 \<and> body = Inl e \<longrightarrow> isl (fst (get_api_answer cfg srv stamp w)))"
  by (simp add: get_api_answer_def Let_def int_of_text_str_int api_except_fails)
     (simp add: api_except_def)

theorem get_api_answer_by_status_code_witness:
  "fst (get_api_answer sample_config server_503 1700000000 no_world) =
     Inl (UrlApiError (api_msg_prefix @ ENDPOINT @ api_msg_middle @ ''503'')) \<and>
   fst (get_api_answer sample_config server_404 1700000000 no_world) =
     Inl (UrlApiError (api_msg_prefix @ ENDPOINT @ api_msg_middle @ ''404'')) \<and>
   int_of_text ''503'' = 503 \<and> int_of_text ''404'' = 404 \<and>
   fst (get_api_answer sample_config server_approved 1700000000 no_world) =
     Inr (PDict [(''homeworks'', PList [approved_proj1])]) \<and>
   isl (fst (get_api_answer sample_config server_200_undecodable 1700000000 no_world))"
  using get_api_answer_by_status_code
      [where srv = server_503 and cfg = sample_config and stamp = 1700000000 and code = 503
         and body = "Inl (JSONDecodeError ''Expecting value'')" and w = no_world and v = PNone
         and e = "JSONDecodeError ''Expecting value''"]
    get_api_answer_by_status_code
      [where srv = server_404 and cfg = sample_config and stamp = 1700000000 and code = 404
         and body = "Inr (PDict [])" and w = no_world and v = "PDict []"
         and e = "JSONDecodeError ''Expecting value''"]
    get_api_answer_by_status_code
      [where srv = server_approved and cfg = sample_config and stamp = 1700000000
         and code = 200 and body = "Inr (PDict [(''homeworks'', PList [approved_proj1])])"
         and v = "PDict [(''homeworks'', PList [approved_proj1])]" and w = no_world
         and e = "JSONDecodeError ''Expecting value''"]
    get_api_answer_by_status_code
      [where srv = server_200_undecodable and cfg = sample_config and stamp = 1700000000
         and code = 200
         and body = "Inl (RequestException ''Expecting value: line 1 column 1 (char 0)'')"
         and v = PNone and w = no_world
         and e = "RequestException ''Expecting value: line 1 column 1 (char 0)''"]
  by (simp add: server_503_def server_404_def server_approved_def
        server_200_undecodable_def str_int_def nat_digits.simps digit_char_def)

text \<open>
  C6. For a dict whose \<^verbatim>\<open>homeworks\<close> value is a non-empty list, \<^verbatim>\<open>check_response\<close>
  returns the element at position 0 and logs nothing; for a dict whose \<^verbatim>\<open>homeworks\<close>
  value is the empty list, the indexing of line 152 raises \<^verbatim>\<open>IndexError\<close>.
\<close>

theorem check_response_first_homework:
  "(map_of d ''homeworks'' = Some (PList (homework # rest)) \<longrightarrow>
      check_response (PDict d) w = (Inr homework, w)) \<and>
   (map_of d ''homeworks'' = Some (PList []) \<longrightarrow>
      check_response (PDict d) w = (Inl (IndexError ''list index out of range''), w))"
  by (simp add: check_response_def dict_get_def first_item_def)

theorem check_response_first_homework_witness:
  "check_response (PDict [(''homeworks'', PList [approved_proj1, PNone])]) no_world =
     (Inr approved_proj1, no_world) \<and>
   check_response (PDict [(''homeworks'', PList [])]) no_world =
     (Inl (IndexError ''list index out of range''), no_world)"
  using check_response_first_homework
      [of "[(''homeworks'', PList [approved_proj1, PNone])]" approved_proj1 "[PNone]" no_world]
    check_response_first_homework
      [of "[(''homeworks'', PList [])]" PNone "[]" no_world]
  by simp

text \<open>
  C7 (as stated, refuted). The claim says that no exception leaves \<^verbatim>\<open>send_message\<close>
  for any failing delivery. Line 99 catches \<^verbatim>\<open>telegram.TelegramError\<close> only: when the
  bot call raises an exception of another class, it reaches the caller and nothing is
  logged.
\<close>

theorem send_message_lets_other_exception_escape:
  "send_message sample_config (Some (OtherException ''unexpected'')) ''text'' no_world =
     (Inl (OtherException ''unexpected''),
      no_world\<lparr>sent := [(Some ''1001'', ''text'')]\<rparr>) \<and>
   fst (send_message sample_config (Some (OtherException ''unexpected'')) ''text'' no_world)
     \<noteq> Inr () \<and>
   logged (snd (send_message sample_config (Some (OtherException ''unexpected'')) ''text''
     no_world)) = []"
  by (simp add: send_message_def bot_send_def sample_config_def no_world_def)

text \<open>
  C7 (amended). When the bot call made by \<^verbatim>\<open>send_message\<close> raises a
  \<^verbatim>\<open>telegram.TelegramError\<close>, whatever its text and whatever the message,
  \<^verbatim>\<open>send_message\<close> returns normally: the call is recorded, one entry is logged at error
  level, and no exception reaches the caller. An exception of any other class raised by
  the bot call is not caught: it reaches the caller, and nothing is logged.
\<close>

theorem send_message_swallows_delivery_error:
  "send_message cfg (Some (TelegramError tel_error)) message w =
     (Inr (),
      log_call ERROR (send_failed_prefix @ tel_error @ ''!'')
        (w\<lparr>sent := sent w @ [(TELEGRAM_CHAT_ID cfg, message)]\<rparr>)) \<and>
   ((\<forall>t. e \<noteq> TelegramError t) \<longrightarrow>
      send_message cfg (Some e) message w =
        (Inl e, w\<lparr>sent := sent w @ [(TELEGRAM_CHAT_ID cfg, message)]\<rparr>))"
  by (cases e) (simp_all add: send_message_def bot_send_def)

theorem send_message_swallows_delivery_error_witness:
  "send_message sample_config (Some (TelegramError ''Timed out'')) ''text'' no_world =
     (Inr (),
      log_call ERROR (send_failed_prefix @ ''Timed out'' @ ''!'')
        (no_world\<lparr>sent := sent no_world @ [(TELEGRAM_CHAT_ID sample_config, ''text'')]\<rparr>)) \<and>
   send_message sample_config (Some (RequestException ''Connection aborted'')) ''text''
       no_world =
     (Inl (RequestException ''Connection aborted''),
      no_world\<lparr>sent := sent no_world @ [(TELEGRAM_CHAT_ID sample_config, ''text'')]\<rparr>)"
  using send_message_swallows_delivery_error
    [of sample_config "''Timed out''" "''text''" no_world
        "RequestException ''Connection aborted''"]
  by simp

text \<open>
  C8. \<^verbatim>\<open>check_tokens\<close> returns \<^verbatim>\<open>True\<close> exactly when one of the three values is
  missing, and \<^verbatim>\<open>False\<close> when all three are present. It has no failing result: its value
  is a boolean and the world, in which at most one critical entry was logged.
\<close>

theorem check_tokens_true_iff_missing:
  "fst (check_tokens cfg w) =
     (PRACTICUM_TOKEN cfg = None \<or> TELEGRAM_TOKEN cfg = None \<or> TELEGRAM_CHAT_ID cfg = None)"
  by (simp add: check_tokens_def)

section \<open>Claims about the polling loop\<close>

text \<open>
  C4. Take two consecutive passes of the loop, the first of which ends without an
  exception, in which the homework records extracted from the two answers carry the same
  status. Then after the first pass \<open>hw_status\<close> is that status, and the second pass ends
  without an exception, calls the bot not at all and leaves \<open>hw_status\<close> as it was.
\<close>

theorem same_status_sends_nothing:
  assumes "fst (poll cfg other ev1 s) = Inr ()"
    and "fetch_homework cfg ev1 s = Inr homework1"
    and "subscript homework1 ''status'' = Inr status"
    and "fetch_homework cfg ev2 (snd (poll cfg other ev1 s)) = Inr homework2"
    and "subscript homework2 ''status'' = Inr status"
  shows "hw_status (snd (poll cfg other ev1 s)) = status \<and>
         fst (cycle cfg other ev2 (snd (poll cfg other ev1 s))) = Inr () \<and>
         sent (snd (cycle cfg other ev2 (snd (poll cfg other ev1 s))))
           = sent (snd (poll cfg other ev1 s)) \<and>
         hw_status (snd (cycle cfg other ev2 (snd (poll cfg other ev1 s))))
           = hw_status (snd (poll cfg other ev1 s))"
proof -
  let ?s1 = "snd (poll cfg other ev1 s)"
  have st: "hw_status ?s1 = status"
    using assms(1-3) by (rule poll_takes_status)
  with assms(5) have "subscript homework2 ''status'' = Inr (hw_status ?s1)" by simp
  note second = poll_same_status [OF assms(4) this, of other]
  with st show ?thesis by (simp add: cycle_of_poll)
qed

theorem same_status_sends_nothing_witness:
  "fst (poll sample_config sample_other env_approved sample_start) = Inr () \<and>
   fetch_homework sample_config env_approved sample_start = Inr approved_proj1 \<and>
   subscript approved_proj1 ''status'' = Inr (PStr ''approved'') \<and>
   sent (snd (poll sample_config sample_other env_approved sample_start)) =
     sent sample_start @
       [(Some ''1001'',
         status_changed_prefix @ ''proj1'' @ [CHR 0x22] @ ''. '' @ verdict_approved)] \<and>
   sent (snd (cycle sample_config sample_other env_approved
            (snd (poll sample_config sample_other env_approved sample_start)))) =
     sent (snd (poll sample_config sample_other env_approved sample_start)) \<and>
   hw_status (snd (cycle sample_config sample_other env_approved
            (snd (poll sample_config sample_other env_approved sample_start)))) =
     PStr ''approved''"
proof -
  have 1: "fst (poll sample_config sample_other env_approved sample_start) = Inr ()"
    by (simp add: loop_defs sample_defs)
  have 2: "fetch_homework sample_config env_approved sample_start = Inr approved_proj1"
    by (simp add: loop_defs sample_defs)
  have 3: "subscript approved_proj1 ''status'' = Inr (PStr ''approved'')"
    by (simp add: subscript_def approved_proj1_def)
  have 4: "fetch_homework sample_config env_approved
             (snd (poll sample_config sample_other env_approved sample_start))
           = Inr approved_proj1"
    by (simp add: loop_defs sample_defs)
  have 5: "sent (snd (poll sample_config sample_other env_approved sample_start)) =
     sent sample_start @
       [(Some ''1001'',
         status_changed_prefix @ ''proj1'' @ [CHR 0x22] @ ''. '' @ verdict_approved)]"
    by (simp add: loop_defs sample_defs)
  from same_status_sends_nothing [OF 1 2 3 4 3] 1 2 3 5 show ?thesis by simp
qed

text \<open>
  C10. When a step of the \<^verbatim>\<open>try\<close> block raises, \<open>hw_status\<close> has the value it had at the
  start of the pass, both when the handler is entered and when the pass is over.
\<close>

theorem failing_cycle_keeps_status:
  "isl (fst (poll cfg other ev s)) \<Longrightarrow>
     hw_status (snd (poll cfg other ev s)) = hw_status s \<and>
     hw_status (snd (cycle cfg other ev s)) = hw_status s"
proof -
  assume failed: "isl (fst (poll cfg other ev s))"
  obtain rp sp where P: "poll cfg other ev s = (rp, sp)"
    by (cases "poll cfg other ev s")
  with failed obtain e where e: "rp = Inl e" by (cases rp) simp_all
  from poll_state [OF P] e have kept: "hw_status sp = hw_status s" by simp
  obtain r s1 where H: "on_error cfg ev e sp = (r, s1)"
    by (cases "on_error cfg ev e sp")
  from on_error_state [OF H] kept have "hw_status s1 = hw_status s" by simp
  with P e H kept show ?thesis by (simp add: cycle_def)
qed

text \<open>
  Four failing passes from the state in which the loop starts, one for each step: the
  fetch fails (HTTP 503), the validation fails (an answer without \<^verbatim>\<open>homeworks\<close>), the
  format step fails (the status \<^verbatim>\<open>pending\<close>), the notification fails (the bot call
  raises an exception that \<^verbatim>\<open>send_message\<close> does not catch).
\<close>

theorem failing_cycle_keeps_status_witness:
  "isl (fst (poll sample_config sample_other env_503 sample_start)) \<and>
   hw_status (snd (cycle sample_config sample_other env_503 sample_start))
     = PStr ''reviewing'' \<and>
   fst (poll sample_config sample_other env_empty sample_start)
     = Inl (EmptyDictionaryOrListError no_homeworks_text) \<and>
   hw_status (snd (cycle sample_config sample_other env_empty sample_start))
     = PStr ''reviewing'' \<and>
   fst (poll sample_config sample_other env_pending sample_start)
     = Inl (NotDocumentStatusError unknown_status_text) \<and>
   hw_status (snd (cycle sample_config sample_other env_pending sample_start))
     = PStr ''reviewing'' \<and>
   fst (poll sample_config sample_other env_approved_crash sample_start)
     = Inl (OtherException ''unexpected'') \<and>
   hw_status (snd (cycle sample_config sample_other env_approved_crash sample_start))
     = PStr ''reviewing''"
proof -
  have 1: "isl (fst (poll sample_config sample_other env_503 sample_start))"
    by (simp add: loop_defs sample_defs)
  have 2: "fst (poll sample_config sample_other env_empty sample_start)
     = Inl (EmptyDictionaryOrListError no_homeworks_text)"
    by (simp add: loop_defs sample_defs)
  have 3: "fst (poll sample_config sample_other env_pending sample_start)
     = Inl (NotDocumentStatusError unknown_status_text)"
    by (simp add: loop_defs sample_defs)
  have 4: "fst (poll sample_config sample_other env_approved_crash sample_start)
     = Inl (OtherException ''unexpected'')"
    by (simp add: loop_defs sample_defs)
  have start: "hw_status sample_start = PStr ''reviewing''"
    by (simp add: sample_start_def enter_loop_def)
  from failing_cycle_keeps_status [of sample_config sample_other env_503 sample_start]
    failing_cycle_keeps_status [of sample_config sample_other env_empty sample_start]
    failing_cycle_keeps_status [of sample_config sample_other env_pending sample_start]
    failing_cycle_keeps_status [of sample_config sample_other env_approved_crash sample_start]
    1 2 3 4 start
  show ?thesis by simp
qed

text \<open>
  C9. The value of \<open>timestamp\<close> is the clock reading taken on line 188, no pass of the
  loop changes it, and every request made by the loop carries it as \<^verbatim>\<open>from_date\<close>; as
  long as no exception has left \<^verbatim>\<open>main\<close> there is one such request per pass.
\<close>

theorem timestamp_never_advances:
  "startup cfg bt = Started s0 \<Longrightarrow>
     timestamp s0 = clock bt \<and>
     timestamp (snd (run cfg other evs s0)) = clock bt \<and>
     (\<forall>request \<in> set (requested (snd (run cfg other evs s0))). from_date request = clock bt) \<and>
     (fst (run cfg other evs s0) = Inr () \<longrightarrow>
        map from_date (requested (snd (run cfg other evs s0)))
          = replicate (length evs) (clock bt))"
proof -
  assume S: "startup cfg bt = Started s0"
  note s0 = startup_state [OF S]
  obtain r s1 where R: "run cfg other evs s0 = (r, s1)"
    by (cases "run cfg other evs s0")
  from run_state [OF R] s0 R show ?thesis by simp
qed

theorem timestamp_never_advances_witness:
  "startup sample_config sample_boot = Started sample_start \<and>
   fst (run sample_config sample_other [env_approved, env_503, env_approved] sample_start)
     = Inr () \<and>
   timestamp (snd (run sample_config sample_other [env_approved, env_503, env_approved]
     sample_start)) = 1700000000 \<and>
   map from_date (requested (snd (run sample_config sample_other
     [env_approved, env_503, env_approved] sample_start)))
     = [1700000000, 1700000000, 1700000000]"
proof -
  have 1: "startup sample_config sample_boot = Started sample_start"
    by (simp add: loop_defs sample_defs)
  have 2: "fst (run sample_config sample_other [env_approved, env_503, env_approved]
             sample_start) = Inr ()"
    by (simp add: loop_defs sample_defs)
  from timestamp_never_advances
         [OF 1, of sample_other "[env_approved, env_503, env_approved]"] 1 2
  show ?thesis by (simp add: sample_boot_def numeral_3_eq_3)
qed

text \<open>
  C5 (a defect of the code). Line 212 stands outside \<^verbatim>\<open>if errors:\<close> so that a critical
  entry is logged for every failure, as the claim says, and the loop is meant never to
  end. On the first failure the handler calls \<^verbatim>\<open>send_message\<close> on line 210, before it
  logs and outside any \<^verbatim>\<open>try\<close>: when the bot call in there raises something that is
  not a \<^verbatim>\<open>TelegramError\<close>, the exception leaves \<^verbatim>\<open>main\<close> before line 212 is reached and
  no critical entry is logged for that failure. The same exception raised by the bot
  call of line 199, inside the \<^verbatim>\<open>try\<close>, is caught and logged at critical level.
\<close>

theorem critical_entry_lost_when_notice_raises:
  "isl (fst (poll sample_config sample_other env_503_crash sample_start)) \<and>
   fst (cycle sample_config sample_other env_503_crash sample_start)
     = Inl (OtherException ''unexpected'') \<and>
   critical_entries (snd (cycle sample_config sample_other env_503_crash sample_start)) = [] \<and>
   fst (poll sample_config sample_other env_approved_crash sample_start)
     = Inl (OtherException ''unexpected'') \<and>
   fst (cycle sample_config sample_other env_approved_crash sample_start) = Inr () \<and>
   critical_entries (snd (cycle sample_config sample_other env_approved_crash sample_start))
     = [(CRITICAL, failure_prefix @ ''unexpected'')]"
  by (simp add: loop_defs sample_defs critical_entries_def)

text \<open>
  Apart from that path the loop does what the claim says. Over a whole run it calls the
  bot with at most one failure notice. It starts with the flag \<open>errors\<close> on; a failure
  met with the flag on calls the bot with the text "program failure" followed by the
  error, and turns the flag off; once the flag is off it stays off and no further
  failure notice is sent, whatever happens. A failing pass ends inside the loop whenever
  the flag is off, or the bot call of its notice returns or raises \<^verbatim>\<open>TelegramError\<close>;
  and every failing pass that ends inside the loop has logged, last of all, a critical
  entry with the same text.
\<close>

lemma one_failure_notice:
  "(startup cfg bt = Started s0 \<longrightarrow>
      errors s0 \<and> length (failure_notices (snd (run cfg other evs s0))) \<le> 1) \<and>
   (fst (poll cfg other ev s) = Inl e \<and> errors s \<longrightarrow>
      failure_notices (snd (cycle cfg other ev s)) =
        failure_notices s @ [(TELEGRAM_CHAT_ID cfg, failure_prefix @ exn_text e)] \<and>
      \<not> errors (snd (cycle cfg other ev s))) \<and>
   (\<not> errors s \<longrightarrow>
      \<not> errors (snd (run cfg other evs s)) \<and>
      failure_notices (snd (run cfg other evs s)) = failure_notices s) \<and>
   (fst (poll cfg other ev s) = Inl e \<and>
    (\<not> errors s \<or> failure_delivery ev = None
       \<or> failure_delivery ev = Some (TelegramError t)) \<longrightarrow>
      fst (cycle cfg other ev s) = Inr ()) \<and>
   (fst (poll cfg other ev s) = Inl e \<and> fst (cycle cfg other ev s) = Inr () \<longrightarrow>
      (\<exists>pre. logged (snd (cycle cfg other ev s)) =
         logged (snd (poll cfg other ev s)) @ pre
           @ [(CRITICAL, failure_prefix @ exn_text e)]))"
proof -
  have startup_part: "startup cfg bt = Started s0 \<longrightarrow>
      errors s0 \<and> length (failure_notices (snd (run cfg other evs s0))) \<le> 1"
  proof
    assume S: "startup cfg bt = Started s0"
    note s0 = startup_state [OF S]
    obtain r s1 where R: "run cfg other evs s0 = (r, s1)"
      by (cases "run cfg other evs s0")
    from run_state [OF R] s0 R
    show "errors s0 \<and> length (failure_notices (snd (run cfg other evs s0))) \<le> 1"
      by simp
  qed
  have first_part: "fst (poll cfg other ev s) = Inl e \<and> errors s \<longrightarrow>
      failure_notices (snd (cycle cfg other ev s)) =
        failure_notices s @ [(TELEGRAM_CHAT_ID cfg, failure_prefix @ exn_text e)] \<and>
      \<not> errors (snd (cycle cfg other ev s))"
  proof
    assume A: "fst (poll cfg other ev s) = Inl e \<and> errors s"
    obtain sp where P: "poll cfg other ev s = (Inl e, sp)"
      using A by (cases "poll cfg other ev s") simp
    note p = poll_state [OF P]
    obtain r s1 where H: "on_error cfg ev e sp = (r, s1)"
      by (cases "on_error cfg ev e sp")
    from on_error_state [OF H] p A P H
    show "failure_notices (snd (cycle cfg other ev s)) =
            failure_notices s @ [(TELEGRAM_CHAT_ID cfg, failure_prefix @ exn_text e)] \<and>
          \<not> errors (snd (cycle cfg other ev s))"
      by (simp add: cycle_def failure_notices_def failure_notice_is_failure_notice)
  qed
  have off_part: "\<not> errors s \<longrightarrow>
      \<not> errors (snd (run cfg other evs s)) \<and>
      failure_notices (snd (run cfg other evs s)) = failure_notices s"
  proof
    assume off: "\<not> errors s"
    obtain r s1 where R: "run cfg other evs s = (r, s1)"
      by (cases "run cfg other evs s")
    from run_state [OF R] off R
    show "\<not> errors (snd (run cfg other evs s)) \<and>
          failure_notices (snd (run cfg other evs s)) = failure_notices s"
      by simp
  qed
  have returns_part: "fst (poll cfg other ev s) = Inl e \<and>
      (\<not> errors s \<or> failure_delivery ev = None
         \<or> failure_delivery ev = Some (TelegramError t)) \<longrightarrow>
      fst (cycle cfg other ev s) = Inr ()"
  proof
    assume A: "fst (poll cfg other ev s) = Inl e \<and>
      (\<not> errors s \<or> failure_delivery ev = None
         \<or> failure_delivery ev = Some (TelegramError t))"
    obtain sp where P: "poll cfg other ev s = (Inl e, sp)"
      using A by (cases "poll cfg other ev s") simp
    from poll_state [OF P] A
    have "\<not> errors sp \<or> failure_delivery ev = None
            \<or> failure_delivery ev = Some (TelegramError t)"
      by simp
    from on_error_returns [OF this] P
    show "fst (cycle cfg other ev s) = Inr ()"
      by (simp add: cycle_def)
  qed
  have critical_part: "fst (poll cfg other ev s) = Inl e \<and>
      fst (cycle cfg other ev s) = Inr () \<longrightarrow>
      (\<exists>pre. logged (snd (cycle cfg other ev s)) =
         logged (snd (poll cfg other ev s)) @ pre
           @ [(CRITICAL, failure_prefix @ exn_text e)])"
  proof
    assume A: "fst (poll cfg other ev s) = Inl e \<and> fst (cycle cfg other ev s) = Inr ()"
    obtain sp where P: "poll cfg other ev s = (Inl e, sp)"
      using A by (cases "poll cfg other ev s") simp
    obtain r s1 where H: "on_error cfg ev e sp = (r, s1)"
      by (cases "on_error cfg ev e sp")
    with A P have "r = Inr ()" by (simp add: cycle_def)
    with on_error_state [OF H] P H
    show "\<exists>pre. logged (snd (cycle cfg other ev s)) =
           logged (snd (poll cfg other ev s)) @ pre
             @ [(CRITICAL, failure_prefix @ exn_text e)]"
      by (simp add: cycle_def)
  qed
  from startup_part first_part off_part returns_part critical_part
  show ?thesis by (intro conjI)
qed

lemma one_failure_notice_on_samples:
  "startup sample_config sample_boot = Started sample_start \<and>
   errors sample_start \<and>
   length (failure_notices (snd (run sample_config sample_other
     [env_503_undelivered, env_approved, env_503] sample_start))) \<le> 1 \<and>
   fst (poll sample_config sample_other env_503 sample_start) =
     Inl (UrlApiError (api_msg_prefix @ ENDPOINT @ api_msg_middle @ str_int 503)) \<and>
   failure_notices after_first_failure =
     [(Some ''1001'',
       failure_prefix @ api_msg_prefix @ ENDPOINT @ api_msg_middle @ str_int 503)] \<and>
   \<not> errors after_first_failure \<and>
   failure_notices (snd (run sample_config sample_other [env_503, env_approved]
     after_first_failure)) = failure_notices after_first_failure \<and>
   fst (poll sample_config sample_other env_503 after_first_failure) =
     Inl (UrlApiError (api_msg_prefix @ ENDPOINT @ api_msg_middle @ str_int 503)) \<and>
   fst (cycle sample_config sample_other env_503 after_first_failure) = Inr () \<and>
   (\<exists>pre. logged (snd (cycle sample_config sample_other env_503 after_first_failure)) =
      logged (snd (poll sample_config sample_other env_503 after_first_failure)) @ pre
        @ [(CRITICAL,
            failure_prefix @ api_msg_prefix @ ENDPOINT @ api_msg_middle @ str_int 503)])"
proof -
  let ?e = "UrlApiError (api_msg_prefix @ ENDPOINT @ api_msg_middle @ str_int 503)"
  have 1: "startup sample_config sample_boot = Started sample_start"
    by (simp add: loop_defs sample_defs)
  have 2: "errors sample_start"
    by (simp add: sample_start_def enter_loop_def)
  have 3: "fst (poll sample_config sample_other env_503 sample_start) = Inl ?e"
    by (simp add: loop_defs sample_defs)
  have 4: "failure_notices sample_start = []"
    by (simp add: failure_notices_def sample_start_def enter_loop_def no_world_def
          tracking_started_is_no_failure_notice)
  note first = one_failure_notice
    [where cfg = sample_config and bt = sample_boot and ?s0.0 = sample_start
       and other = sample_other and evs = "[env_503_undelivered, env_approved, env_503]"
       and ev = env_503 and s = sample_start and e = ?e and t = "[]"]
  from first 1 2 3 4 have 5: "\<not> errors after_first_failure"
    and 6: "failure_notices after_first_failure =
      [(Some ''1001'',
        failure_prefix @ api_msg_prefix @ ENDPOINT @ api_msg_middle @ str_int 503)]"
    by (simp_all add: after_first_failure_def sample_config_def)
  have 7: "fst (poll sample_config sample_other env_503 after_first_failure) = Inl ?e"
    by (simp add: loop_defs sample_defs)
  note later = one_failure_notice
    [where cfg = sample_config and bt = sample_boot and ?s0.0 = sample_start
       and other = sample_other and evs = "[env_503, env_approved]"
       and ev = env_503 and s = after_first_failure and e = ?e and t = "[]"]
  from first later 1 2 3 5 6 7 show ?thesis by simp
qed

end
